theory Spec2Isabelle
  imports Main "HOL-Library.Sublist"
begin

section \<open>Go values used by the buildpack\<close>

text \<open>
  A shallow embedding of \<^verbatim>\<open>solc/solc.go\<close>. Go strings are byte sequences and
  are modelled as \<^typ>\<open>string\<close>; \<^verbatim>\<open>==\<close> on strings is equality of the
  bytes. Struct fields carry the name of their struct as a prefix, since record
  fields share one name space. The logger only prints: the field
  \<^verbatim>\<open>Logger\<close>, its assignment at line 52 and the calls of \<^verbatim>\<open>r.Logger\<close>
  are left out.
\<close>

abbreviation (input) newline :: string where
  "newline \<equiv> [CHR 0x0A]"

abbreviation (input) quote :: string where
  "quote \<equiv> [CHR 0x27]"

text \<open>
  A Go \<^verbatim>\<open>error\<close> value: a plain message, or the result of
  \<^verbatim>\<open>fmt.Errorf\<close> with a \<^verbatim>\<open>%w\<close> verb, which keeps the formatted
  message and the wrapped cause. \<open>Error\<close> is the method \<^verbatim>\<open>Error()\<close>.
\<close>

datatype error = errorString string | wrapError string error

fun Error :: "error \<Rightarrow> string" where
  "Error (errorString s) = s"
| "Error (wrapError msg cause) = msg"

subsection \<open>\<^verbatim>\<open>strings.TrimSpace\<close>\<close>

text \<open>
  \<^verbatim>\<open>strings.TrimSpace\<close> of the Go standard library removes the leading and
  then the trailing white space, as defined by Unicode, from a UTF-8 string. The
  white space characters are the six ASCII ones, U+0085 and U+00A0 (two bytes
  each), and U+1680, U+2000 to U+200A, U+2028, U+2029, U+202F, U+205F and
  U+3000 (three bytes each). A byte that starts no valid encoding is not
  white space.
\<close>

definition asciiSpace :: "char \<Rightarrow> bool" where
  "asciiSpace c \<longleftrightarrow>
     c = CHR 0x09 \<or> c = CHR 0x0A \<or> c = CHR 0x0B \<or> c = CHR 0x0C \<or> c = CHR 0x0D \<or> c = CHR 0x20"

definition space2 :: "char \<Rightarrow> char \<Rightarrow> bool" where
  "space2 a b \<longleftrightarrow> a = CHR 0xC2 \<and> (b = CHR 0x85 \<or> b = CHR 0xA0)"

definition space3 :: "char \<Rightarrow> char \<Rightarrow> char \<Rightarrow> bool" where
  "space3 a b c \<longleftrightarrow>
     (a = CHR 0xE1 \<and> b = CHR 0x9A \<and> c = CHR 0x80) \<or>
     (a = CHR 0xE2 \<and> b = CHR 0x80 \<and>
        (((0x80::nat) \<le> of_char c \<and> (of_char c :: nat) \<le> 0x8A) \<or>
         c = CHR 0xA8 \<or> c = CHR 0xA9 \<or> c = CHR 0xAF)) \<or>
     (a = CHR 0xE2 \<and> b = CHR 0x81 \<and> c = CHR 0x9F) \<or>
     (a = CHR 0xE3 \<and> b = CHR 0x80 \<and> c = CHR 0x80)"

fun TrimLeft :: "string \<Rightarrow> string" where
  "TrimLeft (a # b # c # s) =
     (if asciiSpace a then TrimLeft (b # c # s)
      else if space2 a b then TrimLeft (c # s)
      else if space3 a b c then TrimLeft s
      else a # b # c # s)"
| "TrimLeft [a, b] =
     (if asciiSpace a then TrimLeft [b]
      else if space2 a b then []
      else [a, b])"
| "TrimLeft [a] = (if asciiSpace a then [] else [a])"
| "TrimLeft [] = []"

text \<open>
  The trailing white space, read on the reversed string: the last rune of the
  string is white space exactly when the string ends with one of the encodings
  above.
\<close>

fun TrimRightRev :: "string \<Rightarrow> string" where
  "TrimRightRev (c # b # a # s) =
     (if asciiSpace c then TrimRightRev (b # a # s)
      else if space2 b c then TrimRightRev (a # s)
      else if space3 a b c then TrimRightRev s
      else c # b # a # s)"
| "TrimRightRev [c, b] =
     (if asciiSpace c then TrimRightRev [b]
      else if space2 b c then []
      else [c, b])"
| "TrimRightRev [c] = (if asciiSpace c then [] else [c])"
| "TrimRightRev [] = []"

definition TrimSpace :: "string \<Rightarrow> string" where
  "TrimSpace s = rev (TrimRightRev (rev (TrimLeft s)))"

text \<open>
  White space as the documentation of \<^verbatim>\<open>strings.TrimSpace\<close> has it, "as
  defined by Unicode", written out independently of the functions above: the
  UTF-8 encodings of U+0009 to U+000D, U+0020, U+0085, U+00A0, U+1680, U+2000
  to U+200A, U+2028, U+2029, U+202F, U+205F and U+3000.
\<close>

definition white_space :: "string list" where
  "white_space =
     [[CHR 0x09], [CHR 0x0A], [CHR 0x0B], [CHR 0x0C], [CHR 0x0D], [CHR 0x20],
      [CHR 0xC2, CHR 0x85], [CHR 0xC2, CHR 0xA0],
      [CHR 0xE1, CHR 0x9A, CHR 0x80],
      [CHR 0xE2, CHR 0x80, CHR 0x80], [CHR 0xE2, CHR 0x80, CHR 0x81],
      [CHR 0xE2, CHR 0x80, CHR 0x82], [CHR 0xE2, CHR 0x80, CHR 0x83],
      [CHR 0xE2, CHR 0x80, CHR 0x84], [CHR 0xE2, CHR 0x80, CHR 0x85],
      [CHR 0xE2, CHR 0x80, CHR 0x86], [CHR 0xE2, CHR 0x80, CHR 0x87],
      [CHR 0xE2, CHR 0x80, CHR 0x88], [CHR 0xE2, CHR 0x80, CHR 0x89],
      [CHR 0xE2, CHR 0x80, CHR 0x8A],
      [CHR 0xE2, CHR 0x80, CHR 0xA8], [CHR 0xE2, CHR 0x80, CHR 0xA9],
      [CHR 0xE2, CHR 0x80, CHR 0xAF],
      [CHR 0xE2, CHR 0x81, CHR 0x9F],
      [CHR 0xE3, CHR 0x80, CHR 0x80]]"

section \<open>Types of libcnb and libpak\<close>

text \<open>
  \<^verbatim>\<open>libcnb.Process\<close>, with the three fields that \<^verbatim>\<open>BuildProcessTypes\<close>
  sets (every other field keeps its zero value and is left out).
\<close>

record Process =
  Process_Type :: string
  Process_Command :: string
  Process_Default :: bool

text \<open>\<^verbatim>\<open>libcnb.LayerTypes\<close>.\<close>

record LayerTypes =
  Build :: bool
  Cache :: bool
  Launch :: bool

text \<open>
  Modelled from the spec: \<^verbatim>\<open>libpak.BuildpackDependency\<close>, the dependency
  descriptor, is declared in libpak. The fields are those of the spec's data model
  (section 3) and of the \<^verbatim>\<open>[[metadata.dependencies]]\<close> table of
  \<^verbatim>\<open>buildpack.toml\<close>.
\<close>

record BuildpackDependency =
  Dependency_ID :: string
  Dependency_Name :: string
  Dependency_Version :: string
  Dependency_URI :: string
  Dependency_SHA256 :: string
  Dependency_StripComponents :: int

text \<open>The one dependency that \<^verbatim>\<open>buildpack.toml\<close> declares (lines 41 to 51).\<close>

definition buildpack_toml_dependency :: BuildpackDependency where
  "buildpack_toml_dependency =
     \<lparr>Dependency_ID = ''node'',
      Dependency_Name = ''Node Engine'',
      Dependency_Version = ''20.10.0'',
      Dependency_URI = ''https://nodejs.org/dist/v20.10.0/node-v20.10.0-linux-x64.tar.xz'',
      Dependency_SHA256 = ''3fe4ec5d70c8b4ffc1461dec83ab23fc70124e137c4cbbe1ccc9d6ae6ec04a7d'',
      Dependency_StripComponents = 1\<rparr>"

text \<open>
  Modelled from the spec: \<^verbatim>\<open>libcnb.Layer\<close> is declared in libcnb. Section 3
  of the spec gives it a path, the three type flags and the metadata, which is
  the descriptor persisted last or absent; the name is what
  \<^verbatim>\<open>layer.SBOMPath\<close> reads.
\<close>

record Layer =
  Layer_LayerTypes :: LayerTypes
  Layer_Metadata :: "BuildpackDependency option"
  Layer_Name :: string
  Layer_Path :: string

text \<open>
  Modelled from the spec: \<^verbatim>\<open>libpak.DependencyCache\<close> is the fetch
  collaborator of section 6, out of the spec's scope: it supplies an artifact
  that is already downloaded and verified. The artifact (an \<^verbatim>\<open>*os.File\<close>) is
  modelled by its name, the only thing the code reads from it.
\<close>

record DependencyCache =
  Cache_Artifact :: "BuildpackDependency \<Rightarrow> string"

text \<open>
  Modelled from the spec: \<^verbatim>\<open>libpak.DependencyLayerContributor\<close> and its
  constructor are declared in libpak; the record keeps the three arguments the
  constructor is given.
\<close>

record DependencyLayerContributor =
  Contributor_Dependency :: BuildpackDependency
  Contributor_DependencyCache :: DependencyCache
  Contributor_ExpectedTypes :: LayerTypes

definition NewDependencyLayerContributor ::
    "BuildpackDependency \<Rightarrow> DependencyCache \<Rightarrow> LayerTypes \<Rightarrow> DependencyLayerContributor" where
  "NewDependencyLayerContributor dependency cache types =
     \<lparr>Contributor_Dependency = dependency,
      Contributor_DependencyCache = cache,
      Contributor_ExpectedTypes = types\<rparr>"

text \<open>The fields of \<^verbatim>\<open>sbom.SyftArtifact\<close> and \<^verbatim>\<open>sbom.SyftLocation\<close> that the code sets.\<close>

record SyftLocation =
  Location_Path :: string

record SyftArtifact =
  Artifact_ID :: string
  Artifact_Name :: string
  Artifact_Version :: string
  Artifact_Type :: string
  Artifact_FoundBy :: string
  Artifact_Locations :: "SyftLocation list"
  Artifact_Licenses :: "string list"
  Artifact_CPEs :: "string list"
  Artifact_PURL :: string

text \<open>
  \<^verbatim>\<open>sbom.NewSyftDependency\<close> is a constructor of libpak: the value it builds
  is determined by the path and the artifacts it is given.
\<close>

datatype SyftDependency = NewSyftDependency string "SyftArtifact list"

datatype SBOMFormat = CycloneDXJSON | SPDXJSON | SyftJSON

section \<open>Effects\<close>

text \<open>
  \<^verbatim>\<open>effect.Execution\<close>: the command, its arguments and the two writers. A
  writer is a pointer to a \<^verbatim>\<open>bytes.Buffer\<close>, modelled as an address in the
  store of buffers.
\<close>

record Execution =
  Execution_Command :: string
  Execution_Args :: "string list"
  Execution_Stdout :: nat
  Execution_Stderr :: nat

text \<open>
  \<^verbatim>\<open>effect.Executor\<close> is an interface. What an implementation does with one
  execution is the sequence of writes of the program to its standard output and
  its standard error, in the order they happen, and the error it returns.
\<close>

datatype stream = Stdout | Stderr

type_synonym Executor = "string \<Rightarrow> string list \<Rightarrow> (stream \<times> string) list \<times> error option"

text \<open>
  The calls that leave the package, as parameters: the functions of the Go
  standard library, of libcnb and of libpak that touch the file system or the
  process environment, or whose code is in those libraries. Each returns what
  the Go function returns; an \<^verbatim>\<open>error\<close> result is \<open>None\<close> for
  \<^verbatim>\<open>nil\<close>. Within one contribution every call has different arguments, so
  a function of the arguments describes any behaviour.
\<close>

record externals =
  filepath_Join :: "string list \<Rightarrow> string"
  crush_Extract :: "string \<Rightarrow> string \<Rightarrow> int \<Rightarrow> error option"
  sherpa_AppendToEnvVar :: "string \<Rightarrow> string \<Rightarrow> string list \<Rightarrow> string"
  os_Setenv :: "string \<Rightarrow> string \<Rightarrow> error option"
  effect_NewExecutor :: Executor
  Layer_SBOMPath :: "Layer \<Rightarrow> SBOMFormat \<Rightarrow> string"
  SyftDependency_WriteTo :: "SyftDependency \<Rightarrow> string \<Rightarrow> error option"

text \<open>The external calls of a run, in the order they are made.\<close>

datatype event =
    Extract string string int
  | Setenv string string
  | Execute Execution
  | WriteTo SyftDependency string

text \<open>
  Modelled from the spec: the field \<open>metadata_store\<close> is the persisted layer
  metadata of section 6, a file beside the layer directory that holds the
  descriptor contributed last, kept here by layer path; libpak and libcnb write
  it. The other fields are the state that the code of \<^verbatim>\<open>solc.go\<close> works on:
  the store of buffers with the next free address, and the external calls made
  so far.
\<close>

record world =
  buffers :: "nat \<Rightarrow> string"
  next_buffer :: nat
  trace :: "event list"
  metadata_store :: "string \<rightharpoonup> BuildpackDependency"

definition log_event :: "event \<Rightarrow> world \<Rightarrow> world" where
  "log_event e w = w\<lparr>trace := trace w @ [e]\<rparr>"

text \<open>\<^verbatim>\<open>&bytes.Buffer{}\<close>: a new, empty buffer.\<close>

definition new_Buffer :: "world \<Rightarrow> nat \<times> world" where
  "new_Buffer w =
     (next_buffer w,
      w\<lparr>buffers := (buffers w)(next_buffer w := []), next_buffer := Suc (next_buffer w)\<rparr>)"

text \<open>\<^verbatim>\<open>buf.String()\<close>.\<close>

definition Buffer_String :: "nat \<Rightarrow> world \<Rightarrow> string" where
  "Buffer_String buf w = buffers w buf"

text \<open>Each write of the program goes to the writer of its stream.\<close>

fun write_chunks :: "nat \<Rightarrow> nat \<Rightarrow> (stream \<times> string) list \<Rightarrow> (nat \<Rightarrow> string) \<Rightarrow> (nat \<Rightarrow> string)" where
  "write_chunks out err [] b = b"
| "write_chunks out err ((Stdout, s) # cs) b = write_chunks out err cs (b(out := b out @ s))"
| "write_chunks out err ((Stderr, s) # cs) b = write_chunks out err cs (b(err := b err @ s))"

text \<open>\<^verbatim>\<open>r.Executor.Execute(execution)\<close>.\<close>

definition Executor_Execute :: "Executor \<Rightarrow> Execution \<Rightarrow> world \<Rightarrow> error option \<times> world" where
  "Executor_Execute ex e w =
     (case ex (Execution_Command e) (Execution_Args e) of
        (chunks, err) \<Rightarrow>
          (err,
           log_event (Execute e)
             (w\<lparr>buffers := write_chunks (Execution_Stdout e) (Execution_Stderr e) chunks (buffers w)\<rparr>)))"

text \<open>
  Everything a program writes in one execution, on both streams, in the order
  of the writes.
\<close>

definition captured_output :: "Executor \<Rightarrow> string \<Rightarrow> string list \<Rightarrow> string" where
  "captured_output ex command args = concat (map snd (fst (ex command args)))"

section \<open>The program\<close>

text \<open>
  The struct \<^verbatim>\<open>Solc\<close> (lines 33 to 37). \<^verbatim>\<open>NewSolc\<close> (lines 39 to 49) passes
  the literal \<^verbatim>\<open>libcnb.LayerTypes{Build: true, Cache: true, Launch: true}\<close> to
  the constructor of libpak and takes the executor of \<^verbatim>\<open>effect.NewExecutor()\<close>.
\<close>

record Solc =
  LayerContributor :: DependencyLayerContributor
  Executor :: Executor

definition NewSolc :: "externals \<Rightarrow> BuildpackDependency \<Rightarrow> DependencyCache \<Rightarrow> Solc" where
  "NewSolc ext dependency cache =
     (let contributor = NewDependencyLayerContributor dependency cache
            \<lparr>Build = True, Cache = True, Launch = True\<rparr>
      in \<lparr>LayerContributor = contributor, Executor = effect_NewExecutor ext\<rparr>)"

text \<open>The value built at lines 90 to 104 from the layer path and the version.\<close>

definition solc_SyftDependency :: "Layer \<Rightarrow> string \<Rightarrow> SyftDependency" where
  "solc_SyftDependency layer version =
     NewSyftDependency (Layer_Path layer)
       [\<lparr>Artifact_ID = ''solc'',
         Artifact_Name = ''Solc'',
         Artifact_Version = version,
         Artifact_Type = ''UnknownPackage'',
         Artifact_FoundBy = ''amp-buildpacks/solc'',
         Artifact_Locations = [\<lparr>Location_Path = ''amp-buildpacks/solc/solc/solc.go''\<rparr>],
         Artifact_Licenses = [''Apache-2.0''],
         Artifact_CPEs = [''cpe:2.3:a:solc:solc:'' @ version @ '':*:*:*:*:*:*:*''],
         Artifact_PURL = ''pkg:generic/solc@'' @ version\<rparr>]"

text \<open>
  The function literal that \<^verbatim>\<open>Contribute\<close> passes to the layer contributor
  (lines 53 to 110), the rebuild function of the spec. It returns the error or
  the layer; beside an error the Go code returns the zero layer, which nothing
  reads.
\<close>

definition Contribute_func :: "Solc \<Rightarrow> externals \<Rightarrow> Layer \<Rightarrow> string \<Rightarrow> world \<Rightarrow> (error + Layer) \<times> world" where
  "Contribute_func r ext layer artifact w0 =
     (let bin = filepath_Join ext [Layer_Path layer, ''bin''];
          w1 = log_event (Extract artifact (Layer_Path layer) 1) w0
      in case crush_Extract ext artifact (Layer_Path layer) 1 of
           Some err \<Rightarrow>
             (Inl (wrapError (''unable to expand '' @ artifact @ newline @ Error err) err), w1)
         | None \<Rightarrow>
      (let path = sherpa_AppendToEnvVar ext ''PATH'' '':'' [bin];
           w2 = log_event (Setenv ''PATH'' path) w1
       in case os_Setenv ext ''PATH'' path of
            Some err \<Rightarrow> (Inl (wrapError (''unable to set $PATH'' @ newline @ Error err) err), w2)
          | None \<Rightarrow>
       (case new_Buffer w2 of (buf, w3) \<Rightarrow>
        let npm = filepath_Join ext [bin, ''npm'']
        in case Executor_Execute (Executor r)
                  \<lparr>Execution_Command = npm,
                   Execution_Args = [''install'', ''solc'', ''-g''],
                   Execution_Stdout = buf,
                   Execution_Stderr = buf\<rparr> w3 of
             (Some err, w4) \<Rightarrow>
               (Inl (wrapError (''error executing '' @ quote @ npm @ quote @ '':'' @ newline @
                       '' Combined Output: '' @ Buffer_String buf w4 @ '': '' @ newline @
                       Error err) err), w4)
           | (None, w4) \<Rightarrow>
        (case new_Buffer w4 of (buf, w5) \<Rightarrow>
         case Executor_Execute (Executor r)
                \<lparr>Execution_Command = ''solcjs'',
                 Execution_Args = [''--version''],
                 Execution_Stdout = buf,
                 Execution_Stderr = buf\<rparr> w5 of
           (Some err, w6) \<Rightarrow>
             (Inl (wrapError (''error executing '' @ quote @ ''solcjs --version'' @ quote @ '':'' @
                     newline @ '' Combined Output: '' @ Buffer_String buf w6 @ '': '' @ newline @
                     Error err) err), w6)
         | (None, w6) \<Rightarrow>
         (let version = TrimSpace (Buffer_String buf w6);
              sbomPath = Layer_SBOMPath ext layer SyftJSON;
              dep = solc_SyftDependency layer version;
              w7 = log_event (WriteTo dep sbomPath) w6
          in case SyftDependency_WriteTo ext dep sbomPath of
               Some err \<Rightarrow> (Inl (wrapError (''unable to write SBOM'' @ newline @ Error err) err), w7)
             | None \<Rightarrow> (Inr layer, w7))))))"

text \<open>
  Modelled from the spec: \<^verbatim>\<open>DependencyLayerContributor.Contribute\<close> is a
  method of libpak, whose code is not part of the package. Section 4.1 of the
  spec gives its algorithm: the cache key is the checksum of the descriptor; a
  layer whose metadata is present with an equal key is returned unchanged and
  the rebuild function is not called; otherwise the rebuild function is called
  on the fetched artifact, and only after it succeeds the descriptor becomes the
  metadata of the layer and is persisted.
\<close>

definition DependencyLayerContributor_Contribute ::
    "DependencyLayerContributor \<Rightarrow> Layer \<Rightarrow> (string \<Rightarrow> world \<Rightarrow> (error + Layer) \<times> world) \<Rightarrow>
     world \<Rightarrow> (error + Layer) \<times> world" where
  "DependencyLayerContributor_Contribute d layer f w =
     (let dependency = Contributor_Dependency d;
          key = Dependency_SHA256 dependency
      in if (case Layer_Metadata layer of
               None \<Rightarrow> False
             | Some m \<Rightarrow> Dependency_SHA256 m = key)
         then (Inr layer, w)
         else (case f (Cache_Artifact (Contributor_DependencyCache d) dependency) w of
                 (Inl err, w') \<Rightarrow> (Inl err, w')
               | (Inr l, w') \<Rightarrow>
                   (Inr (l\<lparr>Layer_Metadata := Some dependency\<rparr>),
                    w'\<lparr>metadata_store := (metadata_store w')(Layer_Path l \<mapsto> dependency)\<rparr>)))"

text \<open>\<^verbatim>\<open>Solc.Contribute\<close> (lines 51 to 111).\<close>

definition Contribute :: "Solc \<Rightarrow> externals \<Rightarrow> Layer \<Rightarrow> world \<Rightarrow> (error + Layer) \<times> world" where
  "Contribute r ext layer w =
     DependencyLayerContributor_Contribute (LayerContributor r) layer (Contribute_func r ext layer) w"

text \<open>\<^verbatim>\<open>Solc.BuildProcessTypes\<close> (lines 113 to 124): the processes and the error.\<close>

definition BuildProcessTypes :: "Solc \<Rightarrow> string \<Rightarrow> Process list \<times> error option" where
  "BuildProcessTypes r enableProcess =
     (let processes = [];
          processes =
            (if enableProcess = ''true''
             then processes @
                    [\<lparr>Process_Type = ''web'', Process_Command = ''npm start'', Process_Default = True\<rparr>]
             else processes)
      in (processes, None))"

section \<open>Notions used in the statements\<close>

text \<open>The events that a run has added to the trace of the world it started from.\<close>

definition new_events :: "world \<Rightarrow> world \<Rightarrow> event list" where
  "new_events w w' = drop (length (trace w)) (trace w')"

text \<open>
  The rebuild pipeline of section 4.1 of the spec as the external calls of the
  rebuild function, in order: the extraction, the search path, the two setup
  actions and the write of the provenance record.
\<close>

definition rebuild_calls :: "Solc \<Rightarrow> externals \<Rightarrow> Layer \<Rightarrow> string \<Rightarrow> world \<Rightarrow> event list" where
  "rebuild_calls r ext layer artifact w =
     (let bin = filepath_Join ext [Layer_Path layer, ''bin'']
      in [Extract artifact (Layer_Path layer) 1,
          Setenv ''PATH'' (sherpa_AppendToEnvVar ext ''PATH'' '':'' [bin]),
          Execute \<lparr>Execution_Command = filepath_Join ext [bin, ''npm''],
                   Execution_Args = [''install'', ''solc'', ''-g''],
                   Execution_Stdout = next_buffer w,
                   Execution_Stderr = next_buffer w\<rparr>,
          Execute \<lparr>Execution_Command = ''solcjs'',
                   Execution_Args = [''--version''],
                   Execution_Stdout = Suc (next_buffer w),
                   Execution_Stderr = Suc (next_buffer w)\<rparr>,
          WriteTo (solc_SyftDependency layer
                     (TrimSpace (captured_output (Executor r) ''solcjs'' [''--version''])))
                  (Layer_SBOMPath ext layer SyftJSON)])"

text \<open>Whether the layer is a cache hit for the contributor (section 4.1, step 2).\<close>

definition cache_hit :: "DependencyLayerContributor \<Rightarrow> Layer \<Rightarrow> bool" where
  "cache_hit d layer \<longleftrightarrow>
     (case Layer_Metadata layer of
        None \<Rightarrow> False
      | Some m \<Rightarrow> Dependency_SHA256 m = Dependency_SHA256 (Contributor_Dependency d))"

text \<open>The artifact that the contributor of \<open>r\<close> hands to the rebuild function.\<close>

definition fetched_artifact :: "Solc \<Rightarrow> string" where
  "fetched_artifact r =
     Cache_Artifact (Contributor_DependencyCache (LayerContributor r))
       (Contributor_Dependency (LayerContributor r))"

text \<open>
  Whether an external call fails: what the function called returns for the
  arguments of the call.
\<close>

fun call_fails :: "Solc \<Rightarrow> externals \<Rightarrow> event \<Rightarrow> bool" where
  "call_fails r ext (Extract artifact destination strip) =
     (crush_Extract ext artifact destination strip \<noteq> None)"
| "call_fails r ext (Setenv key val) = (os_Setenv ext key val \<noteq> None)"
| "call_fails r ext (Execute e) =
     (snd (Executor r (Execution_Command e) (Execution_Args e)) \<noteq> None)"
| "call_fails r ext (WriteTo dep path) = (SyftDependency_WriteTo ext dep path \<noteq> None)"

text \<open>
  The error taxonomy of section 7 of the spec. A failed rebuild stops at the
  external call that failed, so the kind of a failure is the kind of the last
  call made. \<open>classify_message\<close> reads a kind off an error message alone, by
  the fixed text that each \<^verbatim>\<open>fmt.Errorf\<close> of the rebuild function puts first.
\<close>

datatype failure =
  ExtractionFailed | EnvironmentUpdateFailed | SetupActionFailed | ProvenanceWriteFailed

fun failure_of_call :: "event \<Rightarrow> failure" where
  "failure_of_call (Extract artifact destination strip) = ExtractionFailed"
| "failure_of_call (Setenv key val) = EnvironmentUpdateFailed"
| "failure_of_call (Execute execution) = SetupActionFailed"
| "failure_of_call (WriteTo dep path) = ProvenanceWriteFailed"

definition classify_message :: "string \<Rightarrow> failure option" where
  "classify_message msg =
     (if prefix ''unable to expand '' msg then Some ExtractionFailed
      else if prefix ''unable to set $PATH'' msg then Some EnvironmentUpdateFailed
      else if prefix ''error executing '' msg then Some SetupActionFailed
      else if prefix ''unable to write SBOM'' msg then Some ProvenanceWriteFailed
      else None)"

fun is_WriteTo :: "event \<Rightarrow> bool" where
  "is_WriteTo (WriteTo dep path) = True"
| "is_WriteTo call = False"

section \<open>A concrete build\<close>

text \<open>
  The example scenario of section 8 of the spec: the dependency of
  \<^verbatim>\<open>buildpack.toml\<close>, a layer without metadata, and a tool that reports
  version 0.8.20.
\<close>

definition example_Executor :: Executor where
  "example_Executor command args =
     (if command = ''solcjs'' then ([(Stdout, ''0.8.20'' @ newline)], None)
      else ([(Stdout, ''added 9 packages''), (Stderr, ''npm notice'')], None))"

definition failing_Executor :: "string \<Rightarrow> Executor" where
  "failing_Executor failing command args =
     (if command = failing then ([(Stdout, ''out;''), (Stderr, ''not found'')], Some (errorString ''exit status 1''))
      else example_Executor command args)"

definition example_externals :: externals where
  "example_externals =
     \<lparr>filepath_Join = (\<lambda>elems. case elems of [] \<Rightarrow> [] | e # es \<Rightarrow> foldl (\<lambda>a b. a @ ''/'' @ b) e es),
      crush_Extract = (\<lambda>artifact destination strip. None),
      sherpa_AppendToEnvVar = (\<lambda>name delimiter values. ''/usr/bin'' @ delimiter @ concat values),
      os_Setenv = (\<lambda>key value. None),
      effect_NewExecutor = example_Executor,
      Layer_SBOMPath = (\<lambda>layer format. Layer_Path layer @ ''.sbom.syft.json''),
      SyftDependency_WriteTo = (\<lambda>dep path. None)\<rparr>"

definition example_cache :: DependencyCache where
  "example_cache = \<lparr>Cache_Artifact = (\<lambda>dependency. ''node.tar.xz'')\<rparr>"

definition example_Solc :: Solc where
  "example_Solc = NewSolc example_externals buildpack_toml_dependency example_cache"

definition example_layer :: Layer where
  "example_layer =
     \<lparr>Layer_LayerTypes = \<lparr>Build = False, Cache = False, Launch = False\<rparr>,
      Layer_Metadata = None, Layer_Name = ''solc'', Layer_Path = ''/layers/solc''\<rparr>"

definition example_world :: world where
  "example_world =
     \<lparr>buffers = (\<lambda>a. []), next_buffer = 0, trace = [], metadata_store = Map.empty\<rparr>"

text \<open>Builds in which the version query, or the installation, exits with an error.\<close>

definition solcjs_failing_Solc :: Solc where
  "solcjs_failing_Solc = example_Solc\<lparr>Executor := failing_Executor ''solcjs''\<rparr>"

definition npm_failing_Solc :: Solc where
  "npm_failing_Solc = example_Solc\<lparr>Executor := failing_Executor ''/layers/solc/bin/npm''\<rparr>"

text \<open>The same layer with the metadata of an earlier contribution of the dependency.\<close>

definition cached_layer :: Layer where
  "cached_layer = example_layer\<lparr>Layer_Metadata := Some buildpack_toml_dependency\<rparr>"

text \<open>A descriptor that asks for two path segments to be discarded.\<close>

definition strip2_Solc :: Solc where
  "strip2_Solc =
     NewSolc example_externals
       (buildpack_toml_dependency\<lparr>Dependency_StripComponents := 2\<rparr>) example_cache"

text \<open>Builds in which the extraction or the write of the provenance record fails.\<close>

definition extract_failing_externals :: externals where
  "extract_failing_externals =
     example_externals
       \<lparr>crush_Extract := (\<lambda>artifact destination strip. Some (errorString ''unexpected EOF''))\<rparr>"

definition write_failing_externals :: externals where
  "write_failing_externals =
     example_externals
       \<lparr>SyftDependency_WriteTo := (\<lambda>dep path. Some (errorString ''permission denied''))\<rparr>"

section \<open>What \<^verbatim>\<open>TrimSpace\<close> removes\<close>

text \<open>
  \<open>TrimSpace\<close> removes white space and nothing else, from both ends, and
  leaves none at either end.
\<close>

lemma char_range:
  assumes "(0x80::nat) \<le> of_char c" "(of_char c :: nat) \<le> 0x8A"
  shows "c \<in> {CHR 0x80, CHR 0x81, CHR 0x82, CHR 0x83, CHR 0x84, CHR 0x85, CHR 0x86, CHR 0x87,
        CHR 0x88, CHR 0x89, CHR 0x8A}"
proof -
  define n :: nat where "n = of_char c"
  have c: "c = char_of n" by (simp add: n_def)
  have "n = 128 \<or> n = 129 \<or> n = 130 \<or> n = 131 \<or> n = 132 \<or> n = 133 \<or> n = 134 \<or> n = 135 \<or>
        n = 136 \<or> n = 137 \<or> n = 138"
    using assms unfolding n_def [symmetric] by arith
  then show ?thesis unfolding c by (elim disjE) (simp_all add: char_of_def bit_Suc_0_iff)
qed

lemma asciiSpace_iff: "asciiSpace a \<longleftrightarrow> [a] \<in> set white_space"
  by (auto simp: asciiSpace_def white_space_def)

lemma space2_iff: "space2 a b \<longleftrightarrow> [a, b] \<in> set white_space"
  by (auto simp: space2_def white_space_def)

lemma space3_range:
  assumes "(0x80::nat) \<le> of_char c" "(of_char c :: nat) \<le> 0x8A"
  shows "[CHR 0xE2, CHR 0x80, c] \<in> set white_space"
proof -
  from char_range [OF assms]
  have "c = CHR 0x80 \<or> c = CHR 0x81 \<or> c = CHR 0x82 \<or> c = CHR 0x83 \<or> c = CHR 0x84 \<or>
        c = CHR 0x85 \<or> c = CHR 0x86 \<or> c = CHR 0x87 \<or> c = CHR 0x88 \<or> c = CHR 0x89 \<or>
        c = CHR 0x8A"
    by simp
  then show ?thesis
    by (elim disjE) (simp_all add: white_space_def)
qed

lemma space3_iff: "space3 a b c \<longleftrightarrow> [a, b, c] \<in> set white_space"
proof
  assume "space3 a b c"
  then consider
      "a = CHR 0xE1" "b = CHR 0x9A" "c = CHR 0x80"
    | "a = CHR 0xE2" "b = CHR 0x80" "(0x80::nat) \<le> of_char c" "(of_char c :: nat) \<le> 0x8A"
    | "a = CHR 0xE2" "b = CHR 0x80" "c = CHR 0xA8 \<or> c = CHR 0xA9 \<or> c = CHR 0xAF"
    | "a = CHR 0xE2" "b = CHR 0x81" "c = CHR 0x9F"
    | "a = CHR 0xE3" "b = CHR 0x80" "c = CHR 0x80"
    unfolding space3_def by blast
  then show "[a, b, c] \<in> set white_space"
  proof cases
    case 2
    then show ?thesis by (simp add: space3_range)
  qed (auto simp: white_space_def)
next
  assume "[a, b, c] \<in> set white_space"
  then have "[a, b, c] \<in> set (filter (\<lambda>x. length x = 3) white_space)"
    by simp
  then show "space3 a b c"
    by (simp add: white_space_def space3_def) (elim disjE; simp)
qed

lemma white_space_length: "x \<in> set white_space \<Longrightarrow> length x = 1 \<or> length x = 2 \<or> length x = 3"
  by (auto simp: white_space_def)

lemma TrimLeft_split:
  "\<exists>leading. s = concat leading @ TrimLeft s \<and> set leading \<subseteq> set white_space"
proof (induction s rule: TrimLeft.induct)
  case (1 a b c s)
  show ?case
  proof (cases "asciiSpace a")
    case True
    with 1 obtain ls where "b # c # s = concat ls @ TrimLeft (b # c # s)" "set ls \<subseteq> set white_space"
      by blast
    with True show ?thesis
      by (intro exI [of _ "[a] # ls"]) (simp add: asciiSpace_iff)
  next
    case notA: False
    show ?thesis
    proof (cases "space2 a b")
      case True
      with 1 notA obtain ls where "c # s = concat ls @ TrimLeft (c # s)" "set ls \<subseteq> set white_space"
        by blast
      with True notA show ?thesis
        by (intro exI [of _ "[a, b] # ls"]) (simp add: space2_iff)
    next
      case notB: False
      show ?thesis
      proof (cases "space3 a b c")
        case True
        with 1 notA notB obtain ls where "s = concat ls @ TrimLeft s" "set ls \<subseteq> set white_space"
          by blast
        with True notA notB show ?thesis
          by (intro exI [of _ "[a, b, c] # ls"]) (simp add: space3_iff)
      next
        case False
        with notA notB show ?thesis
          by (intro exI [of _ "[]"]) simp
      qed
    qed
  qed
next
  case (2 a b)
  show ?case
  proof (cases "asciiSpace a")
    case True
    with 2 obtain ls where "[b] = concat ls @ TrimLeft [b]" "set ls \<subseteq> set white_space"
      by blast
    with True show ?thesis
      by (intro exI [of _ "[a] # ls"]) (simp add: asciiSpace_iff)
  next
    case notA: False
    show ?thesis
    proof (cases "space2 a b")
      case True
      with notA show ?thesis
        by (intro exI [of _ "[[a, b]]"]) (simp add: space2_iff)
    next
      case False
      with notA show ?thesis
        by (intro exI [of _ "[]"]) simp
    qed
  qed
next
  case (3 a)
  show ?case
  proof (cases "asciiSpace a")
    case True
    then show ?thesis
      by (intro exI [of _ "[[a]]"]) (simp add: asciiSpace_iff)
  next
    case False
    then show ?thesis
      by (intro exI [of _ "[]"]) simp
  qed
next
  case 4
  show ?case by (intro exI [of _ "[]"]) simp
qed

lemma white_space_shape:
  assumes "x \<in> set white_space"
  obtains (one) a where "x = [a]" "asciiSpace a"
    | (two) a b where "x = [a, b]" "space2 a b"
    | (three) a b c where "x = [a, b, c]" "space3 a b c"
proof -
  from white_space_length [OF assms]
  consider "length x = 1" | "length x = 2" | "length x = 3" by blast
  then show thesis
  proof cases
    case 1
    then obtain a where "x = [a]" by (auto simp: length_Suc_conv)
    with assms one show thesis by (simp add: asciiSpace_iff)
  next
    case 2
    then obtain a b where "x = [a, b]"
      by (auto simp: length_Suc_conv numeral_2_eq_2)
    with assms two show thesis by (simp add: space2_iff)
  next
    case 3
    then obtain a b c where "x = [a, b, c]"
      by (auto simp: length_Suc_conv numeral_3_eq_3)
    with assms three show thesis by (simp add: space3_iff)
  qed
qed

lemma TrimLeft_no_leading:
  assumes "x \<in> set white_space"
  shows "\<not> prefix x (TrimLeft s)"
proof (induction s rule: TrimLeft.induct)
  case (1 a b c s)
  show ?case
  proof (cases "asciiSpace a \<or> space2 a b \<or> space3 a b c")
    case True
    then show ?thesis using 1 by auto
  next
    case False
    show ?thesis
      using assms by (cases x rule: white_space_shape) (use False in auto)
  qed
next
  case (2 a b)
  show ?case
  proof (cases "asciiSpace a \<or> space2 a b")
    case True
    show ?thesis using assms by (cases x rule: white_space_shape) (use True 2 in auto)
  next
    case False
    show ?thesis
      using assms by (cases x rule: white_space_shape) (use False in auto)
  qed
next
  case (3 a)
  show ?case using assms by (cases x rule: white_space_shape) auto
next
  case 4
  show ?case using assms by (cases x rule: white_space_shape) auto
qed

lemma TrimRightRev_split:
  "\<exists>trailing. rev t = rev (TrimRightRev t) @ concat trailing \<and>
     set trailing \<subseteq> set white_space"
proof (induction t rule: TrimRightRev.induct)
  case (1 c b a s)
  show ?case
  proof (cases "asciiSpace c")
    case True
    with 1 obtain ts where "rev (b # a # s) = rev (TrimRightRev (b # a # s)) @ concat ts"
      "set ts \<subseteq> set white_space"
      by blast
    with True show ?thesis
      by (intro exI [of _ "ts @ [[c]]"]) (simp add: asciiSpace_iff)
  next
    case notA: False
    show ?thesis
    proof (cases "space2 b c")
      case True
      with 1 notA obtain ts where "rev (a # s) = rev (TrimRightRev (a # s)) @ concat ts"
        "set ts \<subseteq> set white_space"
        by blast
      with True notA show ?thesis
        by (intro exI [of _ "ts @ [[b, c]]"]) (simp add: space2_iff)
    next
      case notB: False
      show ?thesis
      proof (cases "space3 a b c")
        case True
        with 1 notA notB obtain ts where "rev s = rev (TrimRightRev s) @ concat ts"
          "set ts \<subseteq> set white_space"
          by blast
        with True notA notB show ?thesis
          by (intro exI [of _ "ts @ [[a, b, c]]"]) (simp add: space3_iff)
      next
        case False
        with notA notB show ?thesis
          by (intro exI [of _ "[]"]) simp
      qed
    qed
  qed
next
  case (2 c b)
  show ?case
  proof (cases "asciiSpace c")
    case True
    with 2 obtain ts where "rev [b] = rev (TrimRightRev [b]) @ concat ts"
      "set ts \<subseteq> set white_space"
      by blast
    with True show ?thesis
      by (intro exI [of _ "ts @ [[c]]"]) (simp add: asciiSpace_iff)
  next
    case notA: False
    show ?thesis
    proof (cases "space2 b c")
      case True
      with notA show ?thesis
        by (intro exI [of _ "[[b, c]]"]) (simp add: space2_iff)
    next
      case False
      with notA show ?thesis
        by (intro exI [of _ "[]"]) simp
    qed
  qed
next
  case (3 c)
  show ?case
  proof (cases "asciiSpace c")
    case True
    then show ?thesis
      by (intro exI [of _ "[[c]]"]) (simp add: asciiSpace_iff)
  next
    case False
    then show ?thesis
      by (intro exI [of _ "[]"]) simp
  qed
next
  case 4
  show ?case by (intro exI [of _ "[]"]) simp
qed

lemma TrimRightRev_no_trailing:
  assumes "x \<in> set white_space"
  shows "\<not> prefix (rev x) (TrimRightRev t)"
proof (induction t rule: TrimRightRev.induct)
  case (1 c b a s)
  show ?case
  proof (cases "asciiSpace c \<or> space2 b c \<or> space3 a b c")
    case True
    then show ?thesis using 1 by auto
  next
    case False
    show ?thesis
      using assms by (cases x rule: white_space_shape) (use False in auto)
  qed
next
  case (2 c b)
  show ?case
  proof (cases "asciiSpace c \<or> space2 b c")
    case True
    show ?thesis using assms by (cases x rule: white_space_shape) (use True 2 in auto)
  next
    case False
    show ?thesis
      using assms by (cases x rule: white_space_shape) (use False in auto)
  qed
next
  case (3 c)
  show ?case using assms by (cases x rule: white_space_shape) auto
next
  case 4
  show ?case using assms by (cases x rule: white_space_shape) auto
qed

lemma TrimSpace_trims:
  "\<exists>leading trailing.
     s = concat leading @ TrimSpace s @ concat trailing \<and>
     set leading \<subseteq> set white_space \<and> set trailing \<subseteq> set white_space"
proof -
  obtain ls where ls: "s = concat ls @ TrimLeft s" "set ls \<subseteq> set white_space"
    using TrimLeft_split by blast
  obtain ts where ts: "rev (rev (TrimLeft s)) =
      rev (TrimRightRev (rev (TrimLeft s))) @ concat ts" "set ts \<subseteq> set white_space"
    using TrimRightRev_split by blast
  have "s = concat ls @ TrimSpace s @ concat ts"
    using ls(1) ts(1) by (simp add: TrimSpace_def)
  then show ?thesis using ls(2) ts(2) by blast
qed

lemma TrimSpace_no_white_space:
  assumes "x \<in> set white_space"
  shows "\<not> prefix x (TrimSpace s)" and "\<not> suffix x (TrimSpace s)"
proof -
  obtain ts where ts: "rev (rev (TrimLeft s)) =
      rev (TrimRightRev (rev (TrimLeft s))) @ concat ts"
    using TrimRightRev_split by blast
  then have "TrimLeft s = TrimSpace s @ concat ts"
    by (simp add: TrimSpace_def)
  then have "prefix x (TrimSpace s) \<Longrightarrow> prefix x (TrimLeft s)"
    by (metis prefix_prefix)
  then show "\<not> prefix x (TrimSpace s)"
    using TrimLeft_no_leading [OF assms] by blast
  show "\<not> suffix x (TrimSpace s)"
    using TrimRightRev_no_trailing [OF assms, of "rev (TrimLeft s)"]
    by (simp add: TrimSpace_def suffix_to_prefix)
qed

section \<open>The rebuild function, case by case\<close>

text \<open>
  Both writers of an execution are the same buffer, so the buffer receives the
  writes of both streams in their order.
\<close>

lemma write_chunks_same:
  "write_chunks b b cs bufs = bufs(b := bufs b @ concat (map snd cs))"
proof (induction cs arbitrary: bufs)
  case Nil
  then show ?case by simp
next
  case (Cons c cs)
  obtain s x where c: "c = (s, x)" by (cases c)
  show ?case by (cases s) (auto simp: c Cons.IH fun_eq_iff)
qed

lemma Execute_merged:
  "Executor_Execute ex
     \<lparr>Execution_Command = command, Execution_Args = args,
      Execution_Stdout = b, Execution_Stderr = b\<rparr> w =
   (snd (ex command args),
    w\<lparr>buffers := (buffers w)(b := buffers w b @ captured_output ex command args),
      trace := trace w @ [Execute \<lparr>Execution_Command = command, Execution_Args = args,
                                   Execution_Stdout = b, Execution_Stderr = b\<rparr>]\<rparr>)"
  by (simp add: Executor_Execute_def captured_output_def log_event_def write_chunks_same
      split: prod.splits)

lemma Contribute_func_outcome:
  fixes r ext layer artifact w
  defines "bin \<equiv> filepath_Join ext [Layer_Path layer, ''bin'']"
  defines "npm \<equiv> filepath_Join ext [bin, ''npm'']"
  defines "path \<equiv> sherpa_AppendToEnvVar ext ''PATH'' '':'' [bin]"
  defines "out1 \<equiv> captured_output (Executor r) npm [''install'', ''solc'', ''-g'']"
  defines "out2 \<equiv> captured_output (Executor r) ''solcjs'' [''--version'']"
  defines "dep \<equiv> solc_SyftDependency layer (TrimSpace out2)"
  defines "calls \<equiv> rebuild_calls r ext layer artifact w"
  defines "res \<equiv> Contribute_func r ext layer artifact w"
  obtains
    (extract_failed) err where
      "crush_Extract ext artifact (Layer_Path layer) 1 = Some err"
      "fst res = Inl (wrapError (''unable to expand '' @ artifact @ newline @ Error err) err)"
      "trace (snd res) = trace w @ take 1 calls"
      "metadata_store (snd res) = metadata_store w"
  | (setenv_failed) err where
      "crush_Extract ext artifact (Layer_Path layer) 1 = None"
      "os_Setenv ext ''PATH'' path = Some err"
      "fst res = Inl (wrapError (''unable to set $PATH'' @ newline @ Error err) err)"
      "trace (snd res) = trace w @ take 2 calls"
      "metadata_store (snd res) = metadata_store w"
  | (npm_failed) err where
      "crush_Extract ext artifact (Layer_Path layer) 1 = None"
      "os_Setenv ext ''PATH'' path = None"
      "snd (Executor r npm [''install'', ''solc'', ''-g'']) = Some err"
      "fst res = Inl (wrapError (''error executing '' @ quote @ npm @ quote @ '':'' @ newline @
                       '' Combined Output: '' @ out1 @ '': '' @ newline @ Error err) err)"
      "trace (snd res) = trace w @ take 3 calls"
      "buffers (snd res) (next_buffer w) = out1"
      "metadata_store (snd res) = metadata_store w"
  | (solcjs_failed) err where
      "crush_Extract ext artifact (Layer_Path layer) 1 = None"
      "os_Setenv ext ''PATH'' path = None"
      "snd (Executor r npm [''install'', ''solc'', ''-g'']) = None"
      "snd (Executor r ''solcjs'' [''--version'']) = Some err"
      "fst res = Inl (wrapError (''error executing '' @ quote @ ''solcjs --version'' @ quote @ '':'' @
                     newline @ '' Combined Output: '' @ out2 @ '': '' @ newline @ Error err) err)"
      "trace (snd res) = trace w @ take 4 calls"
      "buffers (snd res) (next_buffer w) = out1"
      "buffers (snd res) (Suc (next_buffer w)) = out2"
      "metadata_store (snd res) = metadata_store w"
  | (write_failed) err where
      "crush_Extract ext artifact (Layer_Path layer) 1 = None"
      "os_Setenv ext ''PATH'' path = None"
      "snd (Executor r npm [''install'', ''solc'', ''-g'']) = None"
      "snd (Executor r ''solcjs'' [''--version'']) = None"
      "SyftDependency_WriteTo ext dep (Layer_SBOMPath ext layer SyftJSON) = Some err"
      "fst res = Inl (wrapError (''unable to write SBOM'' @ newline @ Error err) err)"
      "trace (snd res) = trace w @ calls"
      "buffers (snd res) (next_buffer w) = out1"
      "buffers (snd res) (Suc (next_buffer w)) = out2"
      "metadata_store (snd res) = metadata_store w"
  | (succeeded)
      "crush_Extract ext artifact (Layer_Path layer) 1 = None"
      "os_Setenv ext ''PATH'' path = None"
      "snd (Executor r npm [''install'', ''solc'', ''-g'']) = None"
      "snd (Executor r ''solcjs'' [''--version'']) = None"
      "SyftDependency_WriteTo ext dep (Layer_SBOMPath ext layer SyftJSON) = None"
      "fst res = Inr layer"
      "trace (snd res) = trace w @ calls"
      "buffers (snd res) (next_buffer w) = out1"
      "buffers (snd res) (Suc (next_buffer w)) = out2"
      "metadata_store (snd res) = metadata_store w"
proof -
  note defs = Contribute_func_def rebuild_calls_def log_event_def new_Buffer_def
    Buffer_String_def Execute_merged Let_def
    bin_def npm_def path_def out1_def out2_def dep_def calls_def res_def
  show thesis
  proof (cases "crush_Extract ext artifact (Layer_Path layer) 1")
    case (Some err)
    then show thesis by (intro extract_failed[of err]) (simp_all add: defs)
  next
    case e: None
    show thesis
    proof (cases "os_Setenv ext ''PATH'' path")
      case (Some err)
      then show thesis using e 
        by (intro setenv_failed[of err]) (simp_all add: defs)
    next
      case s: None
      show thesis
      proof (cases "snd (Executor r npm [''install'', ''solc'', ''-g''])")
        case (Some err)
        then show thesis using e s
          by (intro npm_failed[of err]) (simp_all add: defs)
      next
        case n: None
        show thesis
        proof (cases "snd (Executor r ''solcjs'' [''--version''])")
          case (Some err)
          then show thesis using e s n
            by (intro solcjs_failed[of err]) (simp_all add: defs)
        next
          case v: None
          show thesis
          proof (cases "SyftDependency_WriteTo ext dep (Layer_SBOMPath ext layer SyftJSON)")
            case (Some err)
            then show thesis using e s n v
              by (intro write_failed[of err]) (simp_all add: defs)
          next
            case None
            then show thesis using e s n v
              by (intro succeeded) (simp_all add: defs)
          qed
        qed
      qed
    qed
  qed
qed


lemma new_events_append: "trace w' = trace w @ evs \<Longrightarrow> new_events w w' = evs"
  by (simp add: new_events_def)

lemma new_events_same: "new_events w w = []"
  by (simp add: new_events_def)

lemma rebuild_calls_length: "length (rebuild_calls r ext layer artifact w) = 5"
  by (simp add: rebuild_calls_def Let_def)

lemma rebuild_calls_distinct: "distinct (rebuild_calls r ext layer artifact w)"
  by (simp add: rebuild_calls_def Let_def)

lemma Contribute_hit:
  "cache_hit (LayerContributor r) layer \<Longrightarrow> Contribute r ext layer w = (Inr layer, w)"
  by (simp add: Contribute_def DependencyLayerContributor_Contribute_def cache_hit_def Let_def)

lemma Contributor_hit:
  "cache_hit d layer \<Longrightarrow> DependencyLayerContributor_Contribute d layer f w = (Inr layer, w)"
  by (simp add: DependencyLayerContributor_Contribute_def cache_hit_def Let_def)

lemma Contribute_miss:
  fixes r ext layer w
  assumes "\<not> cache_hit (LayerContributor r) layer"
  defines "dependency \<equiv> Contributor_Dependency (LayerContributor r)"
  defines "artifact \<equiv> Cache_Artifact (Contributor_DependencyCache (LayerContributor r)) dependency"
  defines "res \<equiv> Contribute_func r ext layer artifact w"
  shows "trace (snd (Contribute r ext layer w)) = trace (snd res)"
    and "buffers (snd (Contribute r ext layer w)) = buffers (snd res)"
    and "fst res = Inl e \<Longrightarrow> Contribute r ext layer w = res"
    and "fst res = Inr l \<Longrightarrow>
           fst (Contribute r ext layer w) = Inr (l\<lparr>Layer_Metadata := Some dependency\<rparr>) \<and>
           metadata_store (snd (Contribute r ext layer w)) =
             (metadata_store (snd res))(Layer_Path l \<mapsto> dependency)"
  using assms(1)
  by (auto simp: Contribute_def DependencyLayerContributor_Contribute_def cache_hit_def Let_def
      res_def artifact_def dependency_def split: prod.splits sum.splits)

text \<open>The definitions that evaluate a run of the concrete build.\<close>

lemmas example_defs =
  example_Solc_def example_externals_def example_layer_def example_world_def
  example_cache_def example_Executor_def failing_Executor_def cached_layer_def
  buildpack_toml_dependency_def strip2_Solc_def extract_failing_externals_def
  write_failing_externals_def solcjs_failing_Solc_def npm_failing_Solc_def
  NewSolc_def NewDependencyLayerContributor_def

lemmas run_defs =
  Contribute_def DependencyLayerContributor_Contribute_def Contribute_func_def
  Executor_Execute_def new_Buffer_def Buffer_String_def log_event_def new_events_def
  rebuild_calls_def cache_hit_def fetched_artifact_def captured_output_def
  solc_SyftDependency_def TrimSpace_def asciiSpace_def space2_def space3_def Let_def

section \<open>Process types\<close>

text \<open>
  C5. \<^verbatim>\<open>BuildProcessTypes\<close> applied to the string "true" returns exactly one
  process, of type "web" with the command "npm start", marked default; applied
  to "false", to the empty string or to any other string it returns the empty
  sequence. It reads nothing but its argument: the receiver does not matter.
\<close>

theorem build_process_types_flag:
  "BuildProcessTypes r ''true'' =
     ([\<lparr>Process_Type = ''web'', Process_Command = ''npm start'', Process_Default = True\<rparr>], None) \<and>
   BuildProcessTypes r ''false'' = ([], None) \<and>
   BuildProcessTypes r [] = ([], None) \<and>
   (\<forall>enableProcess. enableProcess \<noteq> ''true'' \<longrightarrow> BuildProcessTypes r enableProcess = ([], None)) \<and>
   (\<forall>r' enableProcess. BuildProcessTypes r' enableProcess = BuildProcessTypes r enableProcess)"
  by (simp add: BuildProcessTypes_def)

theorem build_process_types_flag_witness:
  "''TRUE'' \<noteq> ''true'' \<and> BuildProcessTypes example_Solc ''TRUE'' = ([], None) \<and>
   length (fst (BuildProcessTypes example_Solc ''true'')) = 1"
  using build_process_types_flag [where r = example_Solc] by simp

text \<open>
  C8. For every input string, at most one of the processes that
  \<^verbatim>\<open>BuildProcessTypes\<close> returns is marked default.
\<close>

theorem at_most_one_default_process:
  "length (filter Process_Default (fst (BuildProcessTypes r enableProcess))) \<le> 1"
  by (simp add: BuildProcessTypes_def)

text \<open>
  C10. \<^verbatim>\<open>BuildProcessTypes\<close> never fails: for every input string the error it
  returns is \<^verbatim>\<open>nil\<close>.
\<close>

theorem build_process_types_never_fails:
  "snd (BuildProcessTypes r enableProcess) = None"
  by (simp add: BuildProcessTypes_def)

section \<open>The constructor\<close>

text \<open>
  C9. \<^verbatim>\<open>NewSolc\<close> constructs the layer contributor with the three layer type
  flags build, cache and launch set to true, for every dependency and every
  cache.
\<close>

theorem new_solc_layer_types:
  "LayerContributor (NewSolc ext dependency cache) =
     NewDependencyLayerContributor dependency cache \<lparr>Build = True, Cache = True, Launch = True\<rparr> \<and>
   Contributor_ExpectedTypes (LayerContributor (NewSolc ext dependency cache)) =
     \<lparr>Build = True, Cache = True, Launch = True\<rparr>"
  by (simp add: NewSolc_def NewDependencyLayerContributor_def)

section \<open>Cache hit and rebuild\<close>

lemma Contribute_miss_fetched:
  fixes r ext layer w
  assumes "\<not> cache_hit (LayerContributor r) layer"
  defines "res \<equiv> Contribute_func r ext layer (fetched_artifact r) w"
  shows "new_events w (snd (Contribute r ext layer w)) = new_events w (snd res)"
    and "fst res = Inl e \<Longrightarrow> Contribute r ext layer w = res"
    and "fst res = Inr l \<Longrightarrow>
           fst (Contribute r ext layer w) =
             Inr (l\<lparr>Layer_Metadata := Some (Contributor_Dependency (LayerContributor r))\<rparr>)"
  using Contribute_miss [OF assms(1), where ext = ext and w = w]
  by (simp_all add: new_events_def fetched_artifact_def res_def)

lemma Contribute_func_stops_at_first_failure:
  fixes r ext layer artifact w
  defines "res \<equiv> Contribute_func r ext layer artifact w"
  defines "calls \<equiv> rebuild_calls r ext layer artifact w"
  shows "new_events w (snd res) =
           takeWhile (\<lambda>c. \<not> call_fails r ext c) calls @
           take 1 (dropWhile (\<lambda>c. \<not> call_fails r ext c) calls)"
    and "(\<forall>c \<in> set calls. \<not> call_fails r ext c) \<Longrightarrow> fst res = Inr layer"
    and "(\<exists>c \<in> set calls. call_fails r ext c) \<Longrightarrow> \<exists>e. fst res = Inl e"
  unfolding res_def calls_def
  by (cases rule: Contribute_func_outcome
        [where ext = ext and artifact = artifact and layer = layer and r = r and w = w];
      simp add: new_events_append rebuild_calls_def Let_def)+

text \<open>
  C1. When the metadata stored with the layer is present and its cache key, the
  checksum of the descriptor, equals the key of the new descriptor,
  \<^verbatim>\<open>Contribute\<close> returns the layer unchanged and the function passed to the
  layer contributor is not invoked, whatever that function is: the world is the
  same afterwards. When the metadata is absent or the key differs, the rebuild
  pipeline runs exactly once. Its five calls are pairwise different, and the
  calls made are the calls of the pipeline, in order, up to and including the
  first call that fails, or all five when none fails: the run stops early only
  at a failed call. When no call fails the layer comes back with the
  descriptor as its metadata; when a call fails an error comes back.
\<close>

theorem contribute_cache_hit_or_one_rebuild:
  fixes r ext layer w
  defines "res \<equiv> Contribute r ext layer w"
  defines "calls \<equiv> rebuild_calls r ext layer (fetched_artifact r) w"
  shows
    "(cache_hit (LayerContributor r) layer \<longrightarrow>
        res = (Inr layer, w) \<and> new_events w (snd res) = [] \<and>
        (\<forall>f. DependencyLayerContributor_Contribute (LayerContributor r) layer f w = (Inr layer, w))) \<and>
     (\<not> cache_hit (LayerContributor r) layer \<longrightarrow>
        distinct calls \<and>
        (\<exists>n. 1 \<le> n \<and> n \<le> 5 \<and> new_events w (snd res) = take n calls) \<and>
        new_events w (snd res) =
          takeWhile (\<lambda>c. \<not> call_fails r ext c) calls @
          take 1 (dropWhile (\<lambda>c. \<not> call_fails r ext c) calls) \<and>
        ((\<forall>c \<in> set calls. \<not> call_fails r ext c) \<longrightarrow>
           fst res = Inr (layer\<lparr>Layer_Metadata := Some (Contributor_Dependency (LayerContributor r))\<rparr>) \<and>
           new_events w (snd res) = calls) \<and>
        ((\<exists>c \<in> set calls. call_fails r ext c) \<longrightarrow> (\<exists>e. fst res = Inl e)) \<and>
        ((\<exists>e. fst res = Inl e) \<or>
         fst res = Inr (layer\<lparr>Layer_Metadata := Some (Contributor_Dependency (LayerContributor r))\<rparr>) \<and>
         new_events w (snd res) = calls))"
proof (cases "cache_hit (LayerContributor r) layer")
  case True
  then show ?thesis
    by (simp add: res_def Contribute_hit Contributor_hit new_events_same)
next
  case False
  let ?f = "Contribute_func r ext layer (fetched_artifact r) w"
  note miss = Contribute_miss_fetched [OF False, where ext = ext and w = w]
  have d: "distinct calls"
    by (simp add: calls_def rebuild_calls_distinct)
  have len: "length calls = 5"
    by (simp add: calls_def rebuild_calls_length)
  have "(\<exists>n. 1 \<le> n \<and> n \<le> 5 \<and> new_events w (snd ?f) = take n calls) \<and>
        ((\<exists>e. fst ?f = Inl e) \<or> fst ?f = Inr layer \<and> new_events w (snd ?f) = calls)"
  proof (cases rule: Contribute_func_outcome [where ext = ext and artifact = "fetched_artifact r" and layer = layer and r = r and w = w])
    case (extract_failed err)
    then have "new_events w (snd ?f) = take 1 calls"
      by (simp add: new_events_append calls_def)
    then show ?thesis using extract_failed(2) by (intro conjI exI [of _ 1]) simp_all
  next
    case (setenv_failed err)
    then have "new_events w (snd ?f) = take 2 calls"
      by (simp add: new_events_append calls_def)
    then show ?thesis using setenv_failed(3) by (intro conjI exI [of _ 2]) simp_all
  next
    case (npm_failed err)
    then have "new_events w (snd ?f) = take 3 calls"
      by (simp add: new_events_append calls_def)
    then show ?thesis using npm_failed(4) by (intro conjI exI [of _ 3]) simp_all
  next
    case (solcjs_failed err)
    then have "new_events w (snd ?f) = take 4 calls"
      by (simp add: new_events_append calls_def)
    then show ?thesis using solcjs_failed(5) by (intro conjI exI [of _ 4]) simp_all
  next
    case (write_failed err)
    then have "new_events w (snd ?f) = take 5 calls"
      by (simp add: new_events_append calls_def rebuild_calls_length)
    then show ?thesis using write_failed(6) by (intro conjI exI [of _ 5]) simp_all
  next
    case succeeded
    then have "new_events w (snd ?f) = calls"
      by (simp add: new_events_append calls_def)
    then show ?thesis using succeeded(6) len by (intro conjI exI [of _ 5]) simp_all
  qed
  then have shape:
    "(\<exists>n. 1 \<le> n \<and> n \<le> 5 \<and> new_events w (snd res) = take n calls) \<and>
     ((\<exists>e. fst res = Inl e) \<or>
      fst res = Inr (layer\<lparr>Layer_Metadata := Some (Contributor_Dependency (LayerContributor r))\<rparr>) \<and>
      new_events w (snd res) = calls)"
    using miss by (auto simp: res_def)
  note stops = Contribute_func_stops_at_first_failure
    [where r = r and ext = ext and layer = layer and artifact = "fetched_artifact r" and w = w]
  have upto: "new_events w (snd res) =
      takeWhile (\<lambda>c. \<not> call_fails r ext c) calls @
      take 1 (dropWhile (\<lambda>c. \<not> call_fails r ext c) calls)"
    using stops(1) miss(1) by (simp add: res_def calls_def)
  have all: "fst res = Inr (layer\<lparr>Layer_Metadata := Some (Contributor_Dependency (LayerContributor r))\<rparr>) \<and>
      new_events w (snd res) = calls"
    if "\<forall>c \<in> set calls. \<not> call_fails r ext c"
  proof -
    have "fst ?f = Inr layer"
      using that stops(2) by (simp add: calls_def)
    then have "fst res = Inr (layer\<lparr>Layer_Metadata := Some (Contributor_Dependency (LayerContributor r))\<rparr>)"
      using miss(3) by (simp add: res_def)
    then show ?thesis using shape by auto
  qed
  have some: "\<exists>e. fst res = Inl e" if bad: "\<exists>c \<in> set calls. call_fails r ext c"
  proof -
    obtain e where e: "fst ?f = Inl e"
      using bad stops(3) by (auto simp: calls_def)
    from miss(2) [OF e] show ?thesis using e by (auto simp: res_def)
  qed
  show ?thesis
    using False d shape upto all some by blast
qed

theorem contribute_cache_hit_or_one_rebuild_witness:
  "cache_hit (LayerContributor example_Solc) cached_layer \<and>
   Contribute example_Solc example_externals cached_layer example_world =
     (Inr cached_layer, example_world) \<and>
   \<not> cache_hit (LayerContributor example_Solc) example_layer \<and>
   filter (call_fails example_Solc example_externals)
     (rebuild_calls example_Solc example_externals example_layer ''node.tar.xz'' example_world) =
     [] \<and>
   new_events example_world
     (snd (Contribute example_Solc example_externals example_layer example_world)) =
     rebuild_calls example_Solc example_externals example_layer ''node.tar.xz'' example_world \<and>
   fst (Contribute example_Solc example_externals example_layer example_world) =
     Inr cached_layer \<and>
   \<not> cache_hit (LayerContributor solcjs_failing_Solc) example_layer \<and>
   filter (call_fails solcjs_failing_Solc example_externals)
     (rebuild_calls solcjs_failing_Solc example_externals example_layer ''node.tar.xz''
        example_world) =
     [Execute \<lparr>Execution_Command = ''solcjs'', Execution_Args = [''--version''],
               Execution_Stdout = 1, Execution_Stderr = 1\<rparr>] \<and>
   new_events example_world
     (snd (Contribute solcjs_failing_Solc example_externals example_layer example_world)) =
     take 4 (rebuild_calls solcjs_failing_Solc example_externals example_layer ''node.tar.xz''
               example_world) \<and>
   (\<exists>e. fst (Contribute solcjs_failing_Solc example_externals example_layer example_world) =
      Inl e)"
proof -
  have hit: "cache_hit (LayerContributor example_Solc) cached_layer"
    by (simp add: example_defs cache_hit_def)
  have miss: "\<not> cache_hit (LayerContributor example_Solc) example_layer"
    by (simp add: example_defs cache_hit_def)
  have miss': "\<not> cache_hit (LayerContributor solcjs_failing_Solc) example_layer"
    by (simp add: example_defs cache_hit_def)
  have art: "fetched_artifact example_Solc = ''node.tar.xz''"
    "fetched_artifact solcjs_failing_Solc = ''node.tar.xz''"
    by (simp_all add: example_defs fetched_artifact_def)
  have none: "filter (call_fails example_Solc example_externals)
     (rebuild_calls example_Solc example_externals example_layer ''node.tar.xz'' example_world) =
     []"
    by (simp add: example_defs run_defs)
  have one: "filter (call_fails solcjs_failing_Solc example_externals)
     (rebuild_calls solcjs_failing_Solc example_externals example_layer ''node.tar.xz''
        example_world) =
     [Execute \<lparr>Execution_Command = ''solcjs'', Execution_Args = [''--version''],
               Execution_Stdout = 1, Execution_Stderr = 1\<rparr>]"
    by (simp add: example_defs run_defs)
  have four: "new_events example_world
     (snd (Contribute solcjs_failing_Solc example_externals example_layer example_world)) =
     take 4 (rebuild_calls solcjs_failing_Solc example_externals example_layer ''node.tar.xz''
               example_world)"
    by (simp add: example_defs run_defs)
  have ok: "fst (Contribute example_Solc example_externals example_layer example_world) =
     Inr cached_layer"
    by (simp add: example_defs run_defs)
  have all: "\<forall>c \<in> set (rebuild_calls example_Solc example_externals example_layer ''node.tar.xz''
      example_world). \<not> call_fails example_Solc example_externals c"
    using none by (simp add: filter_empty_conv)
  have some: "\<exists>c \<in> set (rebuild_calls solcjs_failing_Solc example_externals example_layer
      ''node.tar.xz'' example_world). call_fails solcjs_failing_Solc example_externals c"
    using one by (metis filter_empty_conv list.distinct(1))
  note hit_inst = contribute_cache_hit_or_one_rebuild
        [where r = example_Solc and layer = cached_layer and ext = example_externals
           and w = example_world]
  note miss_inst = contribute_cache_hit_or_one_rebuild
        [where r = example_Solc and layer = example_layer and ext = example_externals
           and w = example_world, unfolded art]
  note fail_inst = contribute_cache_hit_or_one_rebuild
        [where r = solcjs_failing_Solc and layer = example_layer and ext = example_externals
           and w = example_world, unfolded art]
  have a: "Contribute example_Solc example_externals cached_layer example_world =
     (Inr cached_layer, example_world)"
    using hit hit_inst by blast
  have b: "new_events example_world
     (snd (Contribute example_Solc example_externals example_layer example_world)) =
     rebuild_calls example_Solc example_externals example_layer ''node.tar.xz'' example_world"
    using miss all miss_inst by blast
  have c: "\<exists>e. fst (Contribute solcjs_failing_Solc example_externals example_layer
      example_world) = Inl e"
    using miss' some fail_inst by blast
  show ?thesis
    using hit miss miss' none one four ok a b c by blast
qed

section \<open>Extraction\<close>

text \<open>
  C2, with the number of segments that the code discards. The first external
  call of the rebuild function extracts the fetched artifact into the path of
  the layer and discards exactly one leading path segment: the literal 1 of
  line 57, which is also the \<^verbatim>\<open>strip-components\<close> of the dependency in
  \<^verbatim>\<open>buildpack.toml\<close>. The descriptor of the contributor plays no part in
  the rebuild function. When the extraction fails, the rebuild function returns
  an error that wraps the cause, and the extraction is the only call made: no
  later step runs.
\<close>

theorem extract_strips_one_component:
  fixes r ext layer artifact w
  defines "res \<equiv> Contribute_func r ext layer artifact w"
  shows
    "(\<exists>later. new_events w (snd res) = Extract artifact (Layer_Path layer) 1 # later) \<and>
     (\<forall>err. crush_Extract ext artifact (Layer_Path layer) 1 = Some err \<longrightarrow>
        fst res = Inl (wrapError (''unable to expand '' @ artifact @ newline @ Error err) err) \<and>
        new_events w (snd res) = [Extract artifact (Layer_Path layer) 1]) \<and>
     (\<forall>contributor. Contribute_func (r\<lparr>LayerContributor := contributor\<rparr>) ext layer artifact w = res) \<and>
     Dependency_StripComponents buildpack_toml_dependency = 1"
proof -
  have first: "\<exists>later. new_events w (snd res) = Extract artifact (Layer_Path layer) 1 # later"
    unfolding res_def
    by (cases rule: Contribute_func_outcome
          [where ext = ext and artifact = artifact and layer = layer and r = r and w = w])
       (simp_all add: new_events_append rebuild_calls_def Let_def)
  have fails: "fst res = Inl (wrapError (''unable to expand '' @ artifact @ newline @ Error err) err) \<and>
        new_events w (snd res) = [Extract artifact (Layer_Path layer) 1]"
    if "crush_Extract ext artifact (Layer_Path layer) 1 = Some err" for err
    using that unfolding res_def
    by (cases rule: Contribute_func_outcome
          [where ext = ext and artifact = artifact and layer = layer and r = r and w = w])
       (simp_all add: new_events_append rebuild_calls_def Let_def)
  have indep: "Contribute_func (r\<lparr>LayerContributor := contributor\<rparr>) ext layer artifact w = res"
    for contributor
  proof -
    have same: "Executor (r\<lparr>LayerContributor := contributor\<rparr>) = Executor r"
      by simp
    show ?thesis
      unfolding res_def Contribute_func_def same by (rule refl)
  qed
  show ?thesis
    using first fails indep by (simp add: buildpack_toml_dependency_def)
qed

theorem extract_strips_one_component_witness:
  "crush_Extract extract_failing_externals ''node.tar.xz'' (Layer_Path example_layer) 1 =
     Some (errorString ''unexpected EOF'') \<and>
   new_events example_world
     (snd (Contribute_func example_Solc extract_failing_externals example_layer ''node.tar.xz''
        example_world)) =
     [Extract ''node.tar.xz'' ''/layers/solc'' 1] \<and>
   Error (projl (fst (Contribute_func example_Solc extract_failing_externals example_layer
     ''node.tar.xz'' example_world))) = ''unable to expand node.tar.xz'' @ newline @ ''unexpected EOF''"
proof -
  have h: "crush_Extract extract_failing_externals ''node.tar.xz'' (Layer_Path example_layer) 1 =
     Some (errorString ''unexpected EOF'')"
    by (simp add: example_defs)
  have p: "Layer_Path example_layer = ''/layers/solc''"
    by (simp add: example_defs)
  show ?thesis
    using h extract_strips_one_component
      [where r = example_Solc and ext = extract_failing_externals and layer = example_layer
         and artifact = "''node.tar.xz''" and w = example_world]
    by (simp add: p)
qed

text \<open>
  The claim as the spec words it speaks of the \<^verbatim>\<open>stripComponents\<close> of the
  descriptor. With a descriptor that asks for two segments, the extraction still
  discards one, and no extraction with two is made.
\<close>

theorem strip_components_of_descriptor_not_used:
  "Dependency_StripComponents (Contributor_Dependency (LayerContributor strip2_Solc)) = 2 \<and>
   Extract ''node.tar.xz'' ''/layers/solc'' 1 \<in>
     set (new_events example_world
            (snd (Contribute_func strip2_Solc example_externals example_layer ''node.tar.xz''
                    example_world))) \<and>
   Extract ''node.tar.xz'' ''/layers/solc''
       (Dependency_StripComponents (Contributor_Dependency (LayerContributor strip2_Solc))) \<notin>
     set (new_events example_world
            (snd (Contribute_func strip2_Solc example_externals example_layer ''node.tar.xz''
                    example_world)))"
  by (simp add: example_defs run_defs)

section \<open>Failures of the setup actions and of the provenance record\<close>

lemma Execute_in_calls:
  "Execute e \<in> set (take n (rebuild_calls r ext layer artifact w)) \<Longrightarrow>
   (3 \<le> n \<and> e = \<lparr>Execution_Command =
                      filepath_Join ext [filepath_Join ext [Layer_Path layer, ''bin''], ''npm''],
                    Execution_Args = [''install'', ''solc'', ''-g''],
                    Execution_Stdout = next_buffer w, Execution_Stderr = next_buffer w\<rparr>) \<or>
   (4 \<le> n \<and> e = \<lparr>Execution_Command = ''solcjs'', Execution_Args = [''--version''],
                    Execution_Stdout = Suc (next_buffer w),
                    Execution_Stderr = Suc (next_buffer w)\<rparr>)"
  by (auto simp: rebuild_calls_def Let_def take_Cons' split: if_splits)

lemma WriteTo_in_calls:
  "WriteTo dep path \<in> set (take n (rebuild_calls r ext layer artifact w)) \<Longrightarrow>
   5 \<le> n \<and>
   dep = solc_SyftDependency layer
           (TrimSpace (captured_output (Executor r) ''solcjs'' [''--version''])) \<and>
   path = Layer_SBOMPath ext layer SyftJSON"
  by (auto simp: rebuild_calls_def Let_def take_Cons' split: if_splits)

lemma setup_failure_in_func:
  assumes mem: "Execute e \<in> set (new_events w (snd (Contribute_func r ext layer artifact w)))"
      and failed: "snd (Executor r (Execution_Command e) (Execution_Args e)) = Some err"
  shows "(\<exists>msg. fst (Contribute_func r ext layer artifact w) = Inl (wrapError msg err)) \<and>
         (\<forall>dep path. WriteTo dep path \<notin>
            set (new_events w (snd (Contribute_func r ext layer artifact w))))"
proof (cases rule: Contribute_func_outcome
          [where ext = ext and artifact = artifact and layer = layer and r = r and w = w])
  case (extract_failed err')
  then show ?thesis using mem failed
    by (auto simp: new_events_append dest!: Execute_in_calls)
next
  case (setenv_failed err')
  then show ?thesis using mem failed
    by (auto simp: new_events_append dest!: Execute_in_calls)
next
  case (npm_failed err')
  then show ?thesis using mem failed
    by (auto simp: new_events_append dest!: Execute_in_calls WriteTo_in_calls)
next
  case (solcjs_failed err')
  then show ?thesis using mem failed
    by (auto simp: new_events_append dest!: Execute_in_calls WriteTo_in_calls)
next
  case (write_failed err')
  then show ?thesis using mem failed
    using Execute_in_calls [where n = 5 and e = e and r = r and ext = ext and layer = layer
        and artifact = artifact and w = w]
    by (auto simp: new_events_append rebuild_calls_length)
next
  case succeeded
  then show ?thesis using mem failed
    using Execute_in_calls [where n = 5 and e = e and r = r and ext = ext and layer = layer
        and artifact = artifact and w = w]
    by (auto simp: new_events_append rebuild_calls_length)
qed

lemma Contribute_func_metadata_store:
  "metadata_store (snd (Contribute_func r ext layer artifact w)) = metadata_store w"
  by (cases rule: Contribute_func_outcome
        [where ext = ext and artifact = artifact and layer = layer and r = r and w = w])
     simp_all

lemma write_failure_in_func:
  assumes mem: "WriteTo dep path \<in>
                  set (new_events w (snd (Contribute_func r ext layer artifact w)))"
      and failed: "SyftDependency_WriteTo ext dep path = Some err"
  shows "fst (Contribute_func r ext layer artifact w) =
           Inl (wrapError (''unable to write SBOM'' @ newline @ Error err) err)"
proof (cases rule: Contribute_func_outcome
          [where ext = ext and artifact = artifact and layer = layer and r = r and w = w])
  case (extract_failed err')
  then show ?thesis using mem
    by (auto simp: new_events_append dest!: WriteTo_in_calls)
next
  case (setenv_failed err')
  then show ?thesis using mem
    by (auto simp: new_events_append dest!: WriteTo_in_calls)
next
  case (npm_failed err')
  then show ?thesis using mem
    by (auto simp: new_events_append dest!: WriteTo_in_calls)
next
  case (solcjs_failed err')
  then show ?thesis using mem
    by (auto simp: new_events_append dest!: WriteTo_in_calls)
next
  case (write_failed err')
  then show ?thesis using mem failed
    using WriteTo_in_calls [where n = 5 and dep = dep and path = path and r = r and ext = ext
        and layer = layer and artifact = artifact and w = w]
    by (auto simp: new_events_append rebuild_calls_length)
next
  case succeeded
  then show ?thesis using mem failed
    using WriteTo_in_calls [where n = 5 and dep = dep and path = path and r = r and ext = ext
        and layer = layer and artifact = artifact and w = w]
    by (auto simp: new_events_append rebuild_calls_length)
qed

lemma Contribute_failed_rebuild:
  assumes events: "new_events w (snd (Contribute r ext layer w)) \<noteq> []"
      and failed: "fst (Contribute_func r ext layer (fetched_artifact r) w) = Inl e"
  shows "fst (Contribute r ext layer w) = Inl e"
    and "metadata_store (snd (Contribute r ext layer w)) = metadata_store w"
proof -
  have miss: "\<not> cache_hit (LayerContributor r) layer"
    using events by (auto simp: Contribute_hit new_events_same)
  have same: "Contribute r ext layer w = Contribute_func r ext layer (fetched_artifact r) w"
    using Contribute_miss_fetched(2) [OF miss failed] .
  show "fst (Contribute r ext layer w) = Inl e"
    by (simp add: same failed)
  show "metadata_store (snd (Contribute r ext layer w)) = metadata_store w"
    by (simp add: same Contribute_func_metadata_store)
qed

lemma Contribute_events:
  "new_events w (snd (Contribute r ext layer w)) \<noteq> [] \<Longrightarrow>
   new_events w (snd (Contribute r ext layer w)) =
     new_events w (snd (Contribute_func r ext layer (fetched_artifact r) w))"
  by (cases "cache_hit (LayerContributor r) layer")
     (auto simp: Contribute_hit new_events_same Contribute_miss_fetched(1))

text \<open>
  C3. In every execution in which a setup action, the \<^verbatim>\<open>npm install\<close> or the
  version query of \<^verbatim>\<open>solcjs\<close>, reports a failure, \<^verbatim>\<open>Contribute\<close> returns
  the error of the rebuild function, which wraps the reported cause; the
  provenance record has not been written; and the persisted metadata of the
  layer after the call is the metadata before it.
\<close>

theorem setup_action_failure_aborts:
  fixes r ext layer w
  defines "res \<equiv> Contribute r ext layer w"
  assumes "Execute e \<in> set (new_events w (snd res))"
      and "snd (Executor r (Execution_Command e) (Execution_Args e)) = Some err"
  shows "(\<exists>msg. fst res = Inl (wrapError msg err)) \<and>
         fst res = fst (Contribute_func r ext layer (fetched_artifact r) w) \<and>
         (\<forall>dep path. WriteTo dep path \<notin> set (new_events w (snd res))) \<and>
         metadata_store (snd res) = metadata_store w"
proof -
  let ?f = "Contribute_func r ext layer (fetched_artifact r) w"
  have nonempty: "new_events w (snd (Contribute r ext layer w)) \<noteq> []"
    using assms(2) by (auto simp: res_def)
  have events: "new_events w (snd res) = new_events w (snd ?f)"
    unfolding res_def using nonempty by (rule Contribute_events)
  have mem: "Execute e \<in> set (new_events w (snd ?f))"
    using assms(2) by (simp add: events)
  from setup_failure_in_func [OF mem assms(3)]
  obtain msg where msg: "fst ?f = Inl (wrapError msg err)"
    and nowrite: "\<forall>dep path. WriteTo dep path \<notin> set (new_events w (snd ?f))"
    by blast
  from Contribute_failed_rebuild [OF nonempty msg]
  have "fst res = Inl (wrapError msg err)" and "metadata_store (snd res) = metadata_store w"
    by (simp_all add: res_def)
  then show ?thesis
    using msg nowrite by (simp add: events)
qed

theorem setup_action_failure_aborts_witness:
  "Execute \<lparr>Execution_Command = ''solcjs'', Execution_Args = [''--version''],
            Execution_Stdout = 1, Execution_Stderr = 1\<rparr> \<in>
     set (new_events example_world
            (snd (Contribute solcjs_failing_Solc example_externals example_layer example_world))) \<and>
   snd (Executor solcjs_failing_Solc ''solcjs'' [''--version'']) =
     Some (errorString ''exit status 1'') \<and>
   (\<exists>msg. fst (Contribute solcjs_failing_Solc example_externals example_layer example_world) =
      Inl (wrapError msg (errorString ''exit status 1''))) \<and>
   metadata_store
     (snd (Contribute solcjs_failing_Solc example_externals example_layer example_world)) =
     metadata_store example_world"
proof -
  let ?e = "\<lparr>Execution_Command = ''solcjs'', Execution_Args = [''--version''],
             Execution_Stdout = 1, Execution_Stderr = 1\<rparr>"
  have made: "Execute ?e \<in>
     set (new_events example_world
            (snd (Contribute solcjs_failing_Solc example_externals example_layer example_world)))"
    by (simp add: example_defs run_defs)
  have failed: "snd (Executor solcjs_failing_Solc (Execution_Command ?e) (Execution_Args ?e)) =
     Some (errorString ''exit status 1'')"
    by (simp add: example_defs)
  have reported: "snd (Executor solcjs_failing_Solc ''solcjs'' [''--version'']) =
     Some (errorString ''exit status 1'')"
    using failed by simp
  show ?thesis
    using made reported setup_action_failure_aborts [OF made failed] by blast
qed

text \<open>
  C6. In every execution in which the write of the provenance record fails, the
  rebuild function returns an error that wraps the cause, \<^verbatim>\<open>Contribute\<close>
  returns that error and no layer, and the persisted metadata is left as it
  was: no layer is recorded as contributed without its provenance file.
\<close>

theorem provenance_write_failure_aborts:
  fixes r ext layer w
  defines "res \<equiv> Contribute r ext layer w"
  assumes "WriteTo dep path \<in> set (new_events w (snd res))"
      and "SyftDependency_WriteTo ext dep path = Some err"
  shows "fst res = Inl (wrapError (''unable to write SBOM'' @ newline @ Error err) err) \<and>
         fst (Contribute_func r ext layer (fetched_artifact r) w) = fst res \<and>
         metadata_store (snd res) = metadata_store w"
proof -
  let ?f = "Contribute_func r ext layer (fetched_artifact r) w"
  have nonempty: "new_events w (snd (Contribute r ext layer w)) \<noteq> []"
    using assms(2) by (auto simp: res_def)
  have events: "new_events w (snd res) = new_events w (snd ?f)"
    unfolding res_def using nonempty by (rule Contribute_events)
  have mem: "WriteTo dep path \<in> set (new_events w (snd ?f))"
    using assms(2) by (simp add: events)
  note failed = write_failure_in_func [OF mem assms(3)]
  from Contribute_failed_rebuild [OF nonempty failed]
  show ?thesis
    using failed by (simp add: res_def)
qed

theorem provenance_write_failure_aborts_witness:
  "WriteTo (solc_SyftDependency example_layer ''0.8.20'') ''/layers/solc.sbom.syft.json'' \<in>
     set (new_events example_world
            (snd (Contribute example_Solc write_failing_externals example_layer example_world))) \<and>
   SyftDependency_WriteTo write_failing_externals
     (solc_SyftDependency example_layer ''0.8.20'') ''/layers/solc.sbom.syft.json'' =
     Some (errorString ''permission denied'') \<and>
   fst (Contribute example_Solc write_failing_externals example_layer example_world) =
     Inl (wrapError (''unable to write SBOM'' @ newline @ ''permission denied'')
            (errorString ''permission denied'')) \<and>
   metadata_store
     (snd (Contribute example_Solc write_failing_externals example_layer example_world)) =
     metadata_store example_world"
proof -
  have made: "WriteTo (solc_SyftDependency example_layer ''0.8.20'') ''/layers/solc.sbom.syft.json'' \<in>
     set (new_events example_world
            (snd (Contribute example_Solc write_failing_externals example_layer example_world)))"
    by (simp add: example_defs run_defs)
  have failed: "SyftDependency_WriteTo write_failing_externals
     (solc_SyftDependency example_layer ''0.8.20'') ''/layers/solc.sbom.syft.json'' =
     Some (errorString ''permission denied'')"
    by (simp add: example_defs)
  show ?thesis
    using made failed provenance_write_failure_aborts [OF made failed] by simp
qed

section \<open>The provenance record\<close>

text \<open>
  C4. For every successful rebuild, exactly one provenance record is written,
  and its version field, the version in its CPE and the version in its package
  URL are the output of \<^verbatim>\<open>solcjs --version\<close> with the white space trimmed
  from both ends: the output is the version between a run of white space
  characters before it and one after it, and the version neither starts nor
  ends with a white space character. The descriptor has no part in it: the
  rebuild function does the same for every layer contributor. In the concrete
  build the descriptor says 20.10.0 and the record says 0.8.20.
\<close>

theorem provenance_version_from_self_query:
  fixes r ext layer artifact w
  defines "res \<equiv> Contribute_func r ext layer artifact w"
  defines "version \<equiv> TrimSpace (captured_output (Executor r) ''solcjs'' [''--version''])"
  assumes "fst res = Inr l"
  shows
    "filter is_WriteTo (new_events w (snd res)) =
       [WriteTo
          (NewSyftDependency (Layer_Path layer)
             [\<lparr>Artifact_ID = ''solc'',
               Artifact_Name = ''Solc'',
               Artifact_Version = version,
               Artifact_Type = ''UnknownPackage'',
               Artifact_FoundBy = ''amp-buildpacks/solc'',
               Artifact_Locations = [\<lparr>Location_Path = ''amp-buildpacks/solc/solc/solc.go''\<rparr>],
               Artifact_Licenses = [''Apache-2.0''],
               Artifact_CPEs = [''cpe:2.3:a:solc:solc:'' @ version @ '':*:*:*:*:*:*:*''],
               Artifact_PURL = ''pkg:generic/solc@'' @ version\<rparr>])
          (Layer_SBOMPath ext layer SyftJSON)] \<and>
     buffers (snd res) (Suc (next_buffer w)) =
       captured_output (Executor r) ''solcjs'' [''--version''] \<and>
     (\<exists>leading trailing.
        captured_output (Executor r) ''solcjs'' [''--version''] =
          concat leading @ version @ concat trailing \<and>
        set leading \<subseteq> set white_space \<and> set trailing \<subseteq> set white_space) \<and>
     (\<forall>x \<in> set white_space. \<not> prefix x version \<and> \<not> suffix x version) \<and>
     (\<forall>contributor.
        Contribute_func (r\<lparr>LayerContributor := contributor\<rparr>) ext layer artifact w = res)"
proof -
  have indep: "Contribute_func (r\<lparr>LayerContributor := contributor\<rparr>) ext layer artifact w = res"
    for contributor
  proof -
    have same: "Executor (r\<lparr>LayerContributor := contributor\<rparr>) = Executor r"
      by simp
    show ?thesis
      unfolding res_def Contribute_func_def same by (rule refl)
  qed
  have "filter is_WriteTo (new_events w (snd res)) =
          [WriteTo (solc_SyftDependency layer version) (Layer_SBOMPath ext layer SyftJSON)] \<and>
        buffers (snd res) (Suc (next_buffer w)) =
          captured_output (Executor r) ''solcjs'' [''--version'']"
    using assms(3) unfolding res_def version_def
    by (cases rule: Contribute_func_outcome
          [where ext = ext and artifact = artifact and layer = layer and r = r and w = w])
       (simp_all add: new_events_append rebuild_calls_def Let_def)
  then have written:
    "filter is_WriteTo (new_events w (snd res)) =
       [WriteTo
          (NewSyftDependency (Layer_Path layer)
             [\<lparr>Artifact_ID = ''solc'',
               Artifact_Name = ''Solc'',
               Artifact_Version = version,
               Artifact_Type = ''UnknownPackage'',
               Artifact_FoundBy = ''amp-buildpacks/solc'',
               Artifact_Locations = [\<lparr>Location_Path = ''amp-buildpacks/solc/solc/solc.go''\<rparr>],
               Artifact_Licenses = [''Apache-2.0''],
               Artifact_CPEs = [''cpe:2.3:a:solc:solc:'' @ version @ '':*:*:*:*:*:*:*''],
               Artifact_PURL = ''pkg:generic/solc@'' @ version\<rparr>])
          (Layer_SBOMPath ext layer SyftJSON)] \<and>
     buffers (snd res) (Suc (next_buffer w)) =
       captured_output (Executor r) ''solcjs'' [''--version'']"
    by (simp add: solc_SyftDependency_def)
  have trimmed:
    "\<exists>leading trailing.
        captured_output (Executor r) ''solcjs'' [''--version''] =
          concat leading @ version @ concat trailing \<and>
        set leading \<subseteq> set white_space \<and> set trailing \<subseteq> set white_space"
    unfolding version_def by (rule TrimSpace_trims)
  have bare: "\<forall>x \<in> set white_space. \<not> prefix x version \<and> \<not> suffix x version"
    unfolding version_def using TrimSpace_no_white_space by blast
  show ?thesis
    using written trimmed bare indep by blast
qed

theorem provenance_version_from_self_query_witness:
  "fst (Contribute_func example_Solc example_externals example_layer ''node.tar.xz''
          example_world) = Inr example_layer \<and>
   Dependency_Version (Contributor_Dependency (LayerContributor example_Solc)) = ''20.10.0'' \<and>
   captured_output (Executor example_Solc) ''solcjs'' [''--version''] = ''0.8.20'' @ newline \<and>
   filter is_WriteTo
     (new_events example_world
        (snd (Contribute_func example_Solc example_externals example_layer ''node.tar.xz''
                example_world))) =
     [WriteTo
        (NewSyftDependency ''/layers/solc''
           [\<lparr>Artifact_ID = ''solc'',
             Artifact_Name = ''Solc'',
             Artifact_Version = ''0.8.20'',
             Artifact_Type = ''UnknownPackage'',
             Artifact_FoundBy = ''amp-buildpacks/solc'',
             Artifact_Locations = [\<lparr>Location_Path = ''amp-buildpacks/solc/solc/solc.go''\<rparr>],
             Artifact_Licenses = [''Apache-2.0''],
             Artifact_CPEs = [''cpe:2.3:a:solc:solc:0.8.20:*:*:*:*:*:*:*''],
             Artifact_PURL = ''pkg:generic/solc@0.8.20''\<rparr>])
        ''/layers/solc.sbom.syft.json'']"
proof -
  have ok: "fst (Contribute_func example_Solc example_externals example_layer ''node.tar.xz''
          example_world) = Inr example_layer"
    by (simp add: example_defs run_defs)
  have nominal: "Dependency_Version (Contributor_Dependency (LayerContributor example_Solc)) =
      ''20.10.0''"
    by (simp add: example_defs)
  have out: "captured_output (Executor example_Solc) ''solcjs'' [''--version''] =
      ''0.8.20'' @ newline"
    by (simp add: example_defs captured_output_def)
  have version: "TrimSpace ''0.8.20\<newline>'' = ''0.8.20''"
    by (simp add: TrimSpace_def asciiSpace_def space2_def space3_def)
  have path: "Layer_Path example_layer = ''/layers/solc''"
    and sbom: "Layer_SBOMPath example_externals example_layer SyftJSON =
      ''/layers/solc.sbom.syft.json''"
    by (simp_all add: example_defs)
  show ?thesis
    using ok nominal out provenance_version_from_self_query [OF ok]
    by (simp add: version path sbom)
qed

section \<open>Captured output and error messages\<close>

lemma failure_message_kind:
  assumes "fst (Contribute_func r ext layer artifact w) = Inl failure"
  shows "classify_message (Error failure) =
           Some (failure_of_call
                   (last (new_events w (snd (Contribute_func r ext layer artifact w)))))"
  using assms
  by (cases rule: Contribute_func_outcome
        [where ext = ext and artifact = artifact and layer = layer and r = r and w = w])
     (auto simp: new_events_append rebuild_calls_def Let_def classify_message_def)

lemma Execute_in_all_calls:
  "Execute e \<in> set (rebuild_calls r ext layer artifact w) \<Longrightarrow>
   e = \<lparr>Execution_Command =
          filepath_Join ext [filepath_Join ext [Layer_Path layer, ''bin''], ''npm''],
        Execution_Args = [''install'', ''solc'', ''-g''],
        Execution_Stdout = next_buffer w, Execution_Stderr = next_buffer w\<rparr> \<or>
   e = \<lparr>Execution_Command = ''solcjs'', Execution_Args = [''--version''],
        Execution_Stdout = Suc (next_buffer w), Execution_Stderr = Suc (next_buffer w)\<rparr>"
  by (auto simp: rebuild_calls_def Let_def)

lemma merged_buffers:
  assumes "Execute e \<in> set (new_events w (snd (Contribute_func r ext layer artifact w)))"
  shows "Execution_Stdout e = Execution_Stderr e \<and>
         buffers (snd (Contribute_func r ext layer artifact w)) (Execution_Stdout e) =
           captured_output (Executor r) (Execution_Command e) (Execution_Args e)"
  using assms
  by (cases rule: Contribute_func_outcome
        [where ext = ext and artifact = artifact and layer = layer and r = r and w = w])
     (auto simp: new_events_append dest!: Execute_in_calls Execute_in_all_calls)

lemma setup_failure_message:
  assumes mem: "Execute e \<in> set (new_events w (snd (Contribute_func r ext layer artifact w)))"
      and failed: "snd (Executor r (Execution_Command e) (Execution_Args e)) = Some err"
  shows "\<exists>before between after.
           fst (Contribute_func r ext layer artifact w) =
             Inl (wrapError
                    (''error executing '' @ before @ Execution_Command e @ between @
                     '' Combined Output: '' @
                     captured_output (Executor r) (Execution_Command e) (Execution_Args e) @
                     after @ Error err) err)"
proof (cases rule: Contribute_func_outcome
          [where ext = ext and artifact = artifact and layer = layer and r = r and w = w])
  case (extract_failed err')
  then show ?thesis using mem
    by (auto simp: new_events_append dest!: Execute_in_calls)
next
  case (setenv_failed err')
  then show ?thesis using mem
    by (auto simp: new_events_append dest!: Execute_in_calls)
next
  case (npm_failed err')
  have e: "e = \<lparr>Execution_Command =
          filepath_Join ext [filepath_Join ext [Layer_Path layer, ''bin''], ''npm''],
        Execution_Args = [''install'', ''solc'', ''-g''],
        Execution_Stdout = next_buffer w, Execution_Stderr = next_buffer w\<rparr>"
    using mem npm_failed(5) by (auto simp: new_events_append dest!: Execute_in_calls)
  have err: "err' = err"
    using failed npm_failed(3) by (simp add: e)
  show ?thesis
    by (intro exI [of _ quote] exI [of _ "quote @ '':'' @ newline"] exI [of _ "'': '' @ newline"])
       (simp add: npm_failed(4) e err)
next
  case (solcjs_failed err')
  have e: "e = \<lparr>Execution_Command = ''solcjs'', Execution_Args = [''--version''],
        Execution_Stdout = Suc (next_buffer w), Execution_Stderr = Suc (next_buffer w)\<rparr>"
    using mem failed solcjs_failed(3,6)
    by (auto simp: new_events_append dest!: Execute_in_calls)
  have err: "err' = err"
    using failed solcjs_failed(4) by (simp add: e)
  show ?thesis
    by (intro exI [of _ quote] exI [of _ "'' --version'' @ quote @ '':'' @ newline"]
          exI [of _ "'': '' @ newline"])
       (simp add: solcjs_failed(5) e err)
next
  case (write_failed err')
  then show ?thesis using mem failed
    by (auto simp: new_events_append dest!: Execute_in_all_calls)
next
  case succeeded
  then show ?thesis using mem failed
    by (auto simp: new_events_append dest!: Execute_in_all_calls)
qed

text \<open>
  C7. Every setup action is executed with one buffer as both its standard
  output and its standard error, and after the run the buffer holds everything
  the program wrote on the two streams, in order. When a setup action fails,
  the error returned wraps the cause, and its message names the command and
  carries the combined output after the words "Combined Output:". The kind of a
  failure (extraction, search path, setup action, provenance write) can be read
  off the message alone, so failures of different kinds never share a message.
\<close>

theorem setup_actions_capture_combined_output:
  fixes r ext layer artifact w
  defines "res \<equiv> Contribute_func r ext layer artifact w"
  shows
    "(\<forall>e. Execute e \<in> set (new_events w (snd res)) \<longrightarrow>
        Execution_Stdout e = Execution_Stderr e \<and>
        buffers (snd res) (Execution_Stdout e) =
          captured_output (Executor r) (Execution_Command e) (Execution_Args e)) \<and>
     (\<forall>e err. Execute e \<in> set (new_events w (snd res)) \<longrightarrow>
        snd (Executor r (Execution_Command e) (Execution_Args e)) = Some err \<longrightarrow>
        (\<exists>before between after.
           fst res =
             Inl (wrapError
                    (''error executing '' @ before @ Execution_Command e @ between @
                     '' Combined Output: '' @
                     captured_output (Executor r) (Execution_Command e) (Execution_Args e) @
                     after @ Error err) err))) \<and>
     (\<forall>failure. fst res = Inl failure \<longrightarrow>
        classify_message (Error failure) =
          Some (failure_of_call (last (new_events w (snd res)))))"
  unfolding res_def
  using merged_buffers [where r = r and ext = ext and layer = layer and artifact = artifact and w = w]
    setup_failure_message [where r = r and ext = ext and layer = layer and artifact = artifact and w = w]
    failure_message_kind [where r = r and ext = ext and layer = layer and artifact = artifact and w = w]
  by blast

theorem setup_actions_capture_combined_output_witness:
  "Execute \<lparr>Execution_Command = ''/layers/solc/bin/npm'',
            Execution_Args = [''install'', ''solc'', ''-g''],
            Execution_Stdout = 0, Execution_Stderr = 0\<rparr> \<in>
     set (new_events example_world
            (snd (Contribute_func npm_failing_Solc example_externals example_layer
                    ''node.tar.xz'' example_world))) \<and>
   fst (Executor npm_failing_Solc ''/layers/solc/bin/npm'' [''install'', ''solc'', ''-g'']) =
     [(Stdout, ''out;''), (Stderr, ''not found'')] \<and>
   snd (Executor npm_failing_Solc ''/layers/solc/bin/npm'' [''install'', ''solc'', ''-g'']) =
     Some (errorString ''exit status 1'') \<and>
   buffers
     (snd (Contribute_func npm_failing_Solc example_externals example_layer ''node.tar.xz''
             example_world)) 0 = ''out;not found'' \<and>
   fst (Contribute_func npm_failing_Solc example_externals example_layer ''node.tar.xz''
          example_world) =
     Inl (wrapError
            (''error executing '' @ quote @ ''/layers/solc/bin/npm'' @ quote @ '':'' @ newline @
             '' Combined Output: out;not found: '' @ newline @ ''exit status 1'')
            (errorString ''exit status 1'')) \<and>
   classify_message
     (''error executing '' @ quote @ ''/layers/solc/bin/npm'' @ quote @ '':'' @ newline @
      '' Combined Output: out;not found: '' @ newline @ ''exit status 1'') =
     Some SetupActionFailed"
proof -
  let ?e = "\<lparr>Execution_Command = ''/layers/solc/bin/npm'',
             Execution_Args = [''install'', ''solc'', ''-g''],
             Execution_Stdout = 0, Execution_Stderr = 0\<rparr>"
  let ?res = "Contribute_func npm_failing_Solc example_externals example_layer ''node.tar.xz''
                example_world"
  have made: "Execute ?e \<in> set (new_events example_world (snd ?res))"
    by (simp add: example_defs run_defs)
  have chunks: "fst (Executor npm_failing_Solc ''/layers/solc/bin/npm'' [''install'', ''solc'', ''-g'']) =
     [(Stdout, ''out;''), (Stderr, ''not found'')]"
    and failed: "snd (Executor npm_failing_Solc ''/layers/solc/bin/npm'' [''install'', ''solc'', ''-g'']) =
     Some (errorString ''exit status 1'')"
    by (simp_all add: example_defs)
  have result: "fst ?res =
     Inl (wrapError
            (''error executing '' @ quote @ ''/layers/solc/bin/npm'' @ quote @ '':'' @ newline @
             '' Combined Output: out;not found: '' @ newline @ ''exit status 1'')
            (errorString ''exit status 1''))"
    by (simp add: example_defs run_defs)
  have out: "captured_output (Executor npm_failing_Solc) ''/layers/solc/bin/npm''
      [''install'', ''solc'', ''-g''] = ''out;not found''"
    by (simp add: captured_output_def chunks)
  have final: "last (new_events example_world (snd ?res)) = Execute ?e"
    by (simp add: example_defs run_defs)
  note inst = setup_actions_capture_combined_output
    [where r = npm_failing_Solc and ext = example_externals and layer = example_layer
       and artifact = "''node.tar.xz''" and w = example_world]
  have buffer: "buffers (snd ?res) 0 = ''out;not found''"
    using inst made out by fastforce
  have kind: "classify_message
     (''error executing '' @ quote @ ''/layers/solc/bin/npm'' @ quote @ '':'' @ newline @
      '' Combined Output: out;not found: '' @ newline @ ''exit status 1'') =
     Some SetupActionFailed"
    using inst result final by fastforce
  show ?thesis
    using made chunks failed buffer result kind by blast
qed

end
